theory Spec2Isabelle
  imports Complex_Main
begin

section \<open>Picking of map objects (PickHandler.ts)\<close>

text \<open>
  A shallow embedding of \<^verbatim>\<open>src/@here/harp-mapview/lib/PickHandler.ts\<close>.
  JavaScript numbers that are indices into buffers are modelled as \<open>int\<close>, distances and
  coordinates as \<open>real\<close> (finite numbers; \<^verbatim>\<open>NaN\<close> and the infinities are outside the model).
  An optional property (\<^verbatim>\<open>x?: T\<close>, \<^verbatim>\<open>T | undefined\<close>) is an \<open>option\<close>, \<open>None\<close> being
  \<^verbatim>\<open>undefined\<close>. A \<^verbatim>\<open>TypeError\<close> raised by reading a property of \<^verbatim>\<open>undefined\<close> is the
  left summand of a sum type. Timing (\<^verbatim>\<open>PerformanceTimer\<close>), logging and the request
  \<^verbatim>\<open>mapView.update()\<close> do not touch the data of the query and are left out.

  three.js declares \<^verbatim>\<open>Object3D.userData\<close> as an object that is always there. The query
  tests it against \<^verbatim>\<open>undefined\<close> all the same, so the model keeps it optional: a hit "with
  feature metadata" is one whose object has \<^verbatim>\<open>userData\<close> with a \<^verbatim>\<open>feature\<close>, and the resolver,
  which reads \<^verbatim>\<open>userData.feature\<close> without a test, fails on an object without \<^verbatim>\<open>userData\<close>
  (the query never calls it on one).
\<close>

subsection \<open>Data\<close>

datatype error = TypeError

datatype PickObjectType = Unspecified | Point | Line | Area | Text | Icon | Object3D

text \<open>
  The enum \<^verbatim>\<open>GeometryType\<close> is declared in \<^verbatim>\<open>@here/harp-datasource-protocol\<close>, which is not
  among the sources. Its members are those the \<^verbatim>\<open>switch\<close> of \<^verbatim>\<open>intersectMapObjects\<close> names;
  every other value of the enum is \<open>GeometryType_Other n\<close>.
\<close>

datatype GeometryType =
    GeometryType_Point
  | GeometryType_Text
  | GeometryType_Line
  | GeometryType_ExtrudedLine
  | GeometryType_SolidLine
  | GeometryType_TextPath
  | GeometryType_Polygon
  | GeometryType_ExtrudedPolygon
  | GeometryType_Object3D
  | GeometryType_Other int

type_synonym Vector2 = "real \<times> real"
type_synonym Vector3 = "real \<times> real \<times> real"
type_synonym Color = string
type_synonym Technique = string
type_synonym ObjInfo = "(string \<times> int) list"

datatype PickPoint = ScreenPoint Vector2 | WorldPoint Vector3

record Ray =
  origin :: Vector3
  direction :: Vector3

record Line3 =
  line_start :: Vector3
  line_end :: Vector3

record Box3 =
  box_min :: Vector3
  box_max :: Vector3

record Sphere =
  center :: Vector3
  radius :: real

record OrientedBox3 =
  xAxis :: Vector3
  yAxis :: Vector3
  zAxis :: Vector3
  position :: Vector3
  extents :: Vector3

record Camera =
  camera_position :: Vector3
  camera_matrix :: "real list"

text \<open>An entry of \<^verbatim>\<open>geometry.userData.debug\<close>.\<close>

record DebugEntry =
  debug_line :: Line3
  debug_ray :: Ray
  debug_length :: real

text \<open>
  A buffer geometry, as far as the picker reads it: the cached bounding box and the list
  \<^verbatim>\<open>userData.debug\<close> (\<open>None\<close> when \<^verbatim>\<open>userData\<close> or \<^verbatim>\<open>userData.debug\<close> is missing).
\<close>

record BufferGeometry =
  geometry_boundingBox :: "Box3 option"
  geometry_debug :: "DebugEntry list option"

text \<open>\<^verbatim>\<open>TileFeatureData\<close>, with the optional \<^verbatim>\<open>boundingVolumes\<close> the debug overlay reads.\<close>

record TileFeatureData =
  geometryType :: "GeometryType option"
  starts :: "int list option"
  objInfos :: "ObjInfo option list option"
  boundingVolumes :: "Sphere list option"

record UserData =
  feature :: "TileFeatureData option"
  userData_technique :: "Technique option"

text \<open>
  What \<^verbatim>\<open>instanceof\<close> can tell about a scene object: a \<^verbatim>\<open>THREE.Mesh\<close>, a \<^verbatim>\<open>DisplacedMesh\<close>
  (a mesh, with its optional \<^verbatim>\<open>m_displacedGeometry\<close>), a \<^verbatim>\<open>MapViewPoints\<close> (a
  \<^verbatim>\<open>THREE.Points\<close>, not a mesh) or anything else.
\<close>

datatype ObjectClass =
    Mesh
  | DisplacedMesh "BufferGeometry option"
  | MapViewPoints
  | OtherObject

record SceneObject =
  objectClass :: ObjectClass
  object_userData :: "UserData option"
  object_position :: Vector3
  object_geometry :: BufferGeometry

text \<open>
  The \<^verbatim>\<open>faceIndex\<close> of a hit. It is declared \<^verbatim>\<open>number | undefined\<close>, but three.js sets it
  to \<^verbatim>\<open>null\<close> on the hits of lines (\<^verbatim>\<open>THREE.Line\<close>, \<^verbatim>\<open>THREE.LineSegments\<close>), to a number on
  the hits of meshes, and leaves it out on the hits of points; the code meets all three. The
  \<^verbatim>\<open>index\<close> of a hit is a number or left out.
\<close>

datatype FaceIndex = Undefined | Null | Number int

text \<open>\<^verbatim>\<open>THREE.Intersection\<close>.\<close>

record Intersection =
  hit_distance :: real
  hit_point :: Vector3
  faceIndex :: FaceIndex
  index :: "int option"
  object :: SceneObject

record PickResult =
  type :: PickObjectType
  point :: PickPoint
  distance :: real
  featureId :: "int option"
  intersection :: "Intersection option"
  technique :: "Technique option"
  userData :: "ObjInfo option"

record Tile =
  tileKey :: nat
  boundingBox :: OrientedBox3
  objects :: "SceneObject list"

record DataSourceTileList =
  dataSource_name :: string
  renderedTiles :: "Tile list"

text \<open>
  The map view, read-only for the picker. \<open>visibleTiles\<close> are the tiles
  \<^verbatim>\<open>forEachVisibleTile\<close> visits, in its order; \<open>getNormalizedScreenCoordinates\<close> and
  \<open>raycasterFromScreenPoint\<close> are its methods of these names.
\<close>

text \<open>
  Modelled from the spec: \<^verbatim>\<open>TextElementsRenderer.pickTextElements\<close> is not among the sources;
  by the spec it appends zero or more results to the accumulator, so the field
  \<open>textElementsRenderer\<close> holds the function from the scene position to the list of results
  it appends.
\<close>

record MapView =
  textElementsRenderer :: "(Vector2 \<Rightarrow> PickResult list) option"
  clientWidth :: real
  clientHeight :: real
  pixelRatio :: real
  getNormalizedScreenCoordinates :: "real \<Rightarrow> real \<Rightarrow> Vector3"
  raycasterFromScreenPoint :: "real \<Rightarrow> real \<Rightarrow> Ray"
  dataSourceTileList :: "DataSourceTileList list"
  visibleTiles :: "Tile list"
  worldCenter :: Vector3
  camera :: Camera

text \<open>
  The operations of three.js, harp-geoutils and harp-datasource-protocol the picker calls,
  as parameters. \<open>intersectObjects ray objs target\<close> is the target array after
  \<^verbatim>\<open>rayCaster.intersectObjects(objs, true, target)\<close>; \<open>intersectPlane\<close> is the ray's
  intersection with the plane \<^verbatim>\<open>m_plane\<close>, if any.
\<close>

record Externals =
  intersectsRay :: "OrientedBox3 \<Rightarrow> Ray \<Rightarrow> real option"
  intersectObjects :: "Ray \<Rightarrow> SceneObject list \<Rightarrow> Intersection list \<Rightarrow> Intersection list"
  computeBoundingBox :: "BufferGeometry \<Rightarrow> Box3"
  setFromCamera :: "Vector3 \<Rightarrow> Camera \<Rightarrow> Ray"
  intersectPlane :: "Ray \<Rightarrow> Vector3 option"
  getFeatureId :: "ObjInfo option \<Rightarrow> int"

text \<open>The helpers the debug overlay \<^verbatim>\<open>m_debugGroup\<close> holds.\<close>

datatype DebugObject =
    ArrowHelper Vector3 Vector3 real Color real real
  | LineObject Line3 Vector3
  | Box3Helper Box3 Color "(Vector3 \<times> Vector3 \<times> Vector3) option"
  | SphereMesh Sphere Vector3 Color

text \<open>
  Modelled from the spec: \<^verbatim>\<open>RoadPicker.intersectRoads\<close> is not among the sources; by the
  spec it appends its hits to the shared result list, so a road picker is the function from
  the tile, the camera position and the ground point to the hits it appends.
\<close>

type_synonym RoadPicker = "Tile \<Rightarrow> Vector3 \<Rightarrow> Vector3 \<Rightarrow> PickResult list"

text \<open>
  The mutable state a query reads or writes: the two public flags, the road picker the
  constructor made (or not), the debug group, and the module-level scratch box \<^verbatim>\<open>tmpOBB\<close>.
\<close>

record PickHandler =
  enableRoadPicking :: bool
  enablePickTechnique :: bool
  m_roadPicker :: "RoadPicker option"
  m_debugGroup :: "DebugObject list"
  tmpOBB :: OrientedBox3

subsection \<open>Vectors, boxes and arrays\<close>

fun vadd :: "Vector3 \<Rightarrow> Vector3 \<Rightarrow> Vector3" where
  "vadd (a, b, c) (x, y, z) = (a + x, b + y, c + z)"

fun vsub :: "Vector3 \<Rightarrow> Vector3 \<Rightarrow> Vector3" where
  "vsub (a, b, c) (x, y, z) = (a - x, b - y, c - z)"

fun vnegate :: "Vector3 \<Rightarrow> Vector3" where
  "vnegate (a, b, c) = (- a, - b, - c)"

fun vz :: "Vector3 \<Rightarrow> real" where
  "vz (a, b, c) = c"

fun set_vz :: "Vector3 \<Rightarrow> real \<Rightarrow> Vector3" where
  "set_vz (a, b, c) z = (a, b, z)"

definition translate :: "Box3 \<Rightarrow> Vector3 \<Rightarrow> Box3" where
  "translate box offset =
     \<lparr>box_min = vadd (box_min box) offset, box_max = vadd (box_max box) offset\<rparr>"

fun isEmpty :: "Box3 \<Rightarrow> bool" where
  "isEmpty box =
     (case (box_min box, box_max box) of
        ((a, b, c), (x, y, z)) \<Rightarrow> x < a \<or> y < b \<or> z < c)"

definition getSize :: "Box3 \<Rightarrow> Vector3" where
  "getSize box = (if isEmpty box then (0, 0, 0) else vsub (box_max box) (box_min box))"

text \<open>
  Reading \<^verbatim>\<open>xs[i]\<close>: \<^verbatim>\<open>undefined\<close> outside the array, also at a negative index.
\<close>

definition js_index :: "'a list \<Rightarrow> int \<Rightarrow> 'a option" where
  "js_index xs i = (if 0 \<le> i \<and> i < int (length xs) then Some (xs ! nat i) else None)"

text \<open>
  \<^verbatim>\<open>Array.prototype.sort(compare)\<close> is a built-in; ECMAScript requires it to be stable.
  It is modelled as the stable insertion sort: an element goes before the first element
  it does not compare greater than, and the elements are inserted from the last to the first.
\<close>

fun insert_sorted :: "('a \<Rightarrow> 'a \<Rightarrow> real) \<Rightarrow> 'a \<Rightarrow> 'a list \<Rightarrow> 'a list" where
  "insert_sorted compare x [] = [x]"
| "insert_sorted compare x (y # ys) =
     (if compare x y \<le> 0 then x # y # ys else y # insert_sorted compare x ys)"

definition array_sort :: "('a \<Rightarrow> 'a \<Rightarrow> real) \<Rightarrow> 'a list \<Rightarrow> 'a list" where
  "array_sort compare xs = foldr (insert_sorted compare) xs []"

subsection \<open>The feature index resolver\<close>

text \<open>
  The loop of \<^verbatim>\<open>getIntersectedFeatureIndex\<close>: \<open>featureIndex\<close> counts the entries passed
  before the first one greater than \<open>intersectIndex\<close>.
\<close>

fun scanStarts :: "int list \<Rightarrow> int \<Rightarrow> int \<Rightarrow> int" where
  "scanStarts [] intersectIndex featureIndex = featureIndex"
| "scanStarts (featureStartIndex # rest) intersectIndex featureIndex =
     (if featureStartIndex > intersectIndex then featureIndex
      else scanStarts rest intersectIndex (featureIndex + 1))"

text \<open>
  The resolver. Both tests of the face index are \<^verbatim>\<open>intersect.faceIndex !== undefined\<close>, which
  \<^verbatim>\<open>null\<close> passes; \<^verbatim>\<open>null * 3\<close> is \<open>0\<close>.
\<close>

definition getIntersectedFeatureIndex :: "Intersection \<Rightarrow> error + int option" where
  "getIntersectedFeatureIndex intersect =
     (case object_userData (object intersect) of
        None \<Rightarrow> Inl TypeError
      | Some ud \<Rightarrow>
          (case feature ud of
             None \<Rightarrow> Inr None
           | Some featureData \<Rightarrow>
               if objectClass (object intersect) = MapViewPoints then Inr (index intersect)
               else
                 (case starts featureData of
                    None \<Rightarrow> Inr None
                  | Some ss \<Rightarrow>
                      if length ss = 0
                         \<or> (faceIndex intersect = Undefined \<and> index intersect = None)
                      then Inr None
                      else if length ss = 1 then Inr (Some 0)
                      else
                        (case faceIndex intersect of
                           Number f \<Rightarrow> Inr (Some (scanStarts ss (f * 3) 0 - 1))
                         | Null \<Rightarrow> Inr (Some (scanStarts ss 0 0 - 1))
                         | Undefined \<Rightarrow>
                             (case index intersect of
                                Some v \<Rightarrow> Inr (Some (scanStarts ss v 0 - 1))
                              | None \<Rightarrow> Inr None)))))"

subsection \<open>The debug overlay\<close>

text \<open>
  Each \<^verbatim>\<open>addDebug...\<close> method appends a helper to \<^verbatim>\<open>m_debugGroup\<close>; the list of helpers is passed
  in and returned. Materials and line widths of the helpers are not modelled.
\<close>

definition addDebugRay ::
  "MapView \<Rightarrow> Ray \<Rightarrow> real \<Rightarrow> Color \<Rightarrow> real \<Rightarrow> real \<Rightarrow> DebugObject list \<Rightarrow> DebugObject list"
where
  "addDebugRay mapView ray len color headLengthFactor headWidthFactor debugGroup =
     debugGroup @ [ArrowHelper (direction ray) (vadd (origin ray) (worldCenter mapView)) len color
                (len * headLengthFactor) (len * headWidthFactor)]"

definition addDebugLine :: "MapView \<Rightarrow> Line3 \<Rightarrow> DebugObject list \<Rightarrow> DebugObject list" where
  "addDebugLine mapView line debugGroup = debugGroup @ [LineObject line (worldCenter mapView)]"

definition addDebugWorldBBox ::
  "Box3 \<Rightarrow> Color \<Rightarrow> (Vector3 \<times> Vector3 \<times> Vector3) option \<Rightarrow> DebugObject list
     \<Rightarrow> DebugObject list"
where
  "addDebugWorldBBox bbox color matrix debugGroup =
     (let bbox' = (if vz (getSize bbox) = 0
                   then bbox\<lparr>box_max := set_vz (box_max bbox) (vz (box_min bbox) + 1)\<rparr>
                   else bbox)
      in debugGroup @ [Box3Helper bbox' color matrix])"

definition addDebugWorldOBBox :: "OrientedBox3 \<Rightarrow> Color \<Rightarrow> DebugObject list \<Rightarrow> DebugObject list"
where
  "addDebugWorldOBBox obb color debugGroup =
     addDebugWorldBBox
       (translate \<lparr>box_min = vnegate (extents obb), box_max = extents obb\<rparr> (position obb))
       color (Some (xAxis obb, yAxis obb, zAxis obb)) debugGroup"

definition addDebugBBox ::
  "MapView \<Rightarrow> Vector3 \<Rightarrow> Box3 \<Rightarrow> Color \<Rightarrow> DebugObject list \<Rightarrow> DebugObject list"
where
  "addDebugBBox mapView pos box color debugGroup =
     addDebugWorldBBox (translate (translate box pos) (worldCenter mapView)) color None debugGroup"

text \<open>
  \<^verbatim>\<open>addDebugBSphere\<close> reads \<^verbatim>\<open>sphere.radius\<close> first: with \<^verbatim>\<open>sphere\<close> undefined that raises
  a \<^verbatim>\<open>TypeError\<close>.
\<close>

definition addDebugBSphere ::
  "MapView \<Rightarrow> Vector3 \<Rightarrow> Sphere option \<Rightarrow> Color \<Rightarrow> DebugObject list
     \<Rightarrow> error + DebugObject list"
where
  "addDebugBSphere mapView pos sphere color debugGroup =
     (case sphere of
        None \<Rightarrow> Inl TypeError
      | Some s \<Rightarrow> Inr (debugGroup @ [SphereMesh s (vadd pos (worldCenter mapView)) color]))"

fun isMesh :: "ObjectClass \<Rightarrow> bool" where
  "isMesh Mesh = True"
| "isMesh (DisplacedMesh g) = True"
| "isMesh MapViewPoints = False"
| "isMesh OtherObject = False"

fun meshGeometry :: "SceneObject \<Rightarrow> BufferGeometry" where
  "meshGeometry obj =
     (case objectClass obj of
        DisplacedMesh (Some displaced) \<Rightarrow> displaced
      | _ \<Rightarrow> object_geometry obj)"

text \<open>The last step of \<^verbatim>\<open>addDebugIntersect\<close>: the first entry of \<^verbatim>\<open>geometry.userData.debug\<close>.\<close>

definition addDebugGeometry ::
  "MapView \<Rightarrow> BufferGeometry \<Rightarrow> DebugObject list \<Rightarrow> DebugObject list"
where
  "addDebugGeometry mapView geom debugGroup =
     (case geometry_debug geom of
        None \<Rightarrow> debugGroup
      | Some [] \<Rightarrow> debugGroup
      | Some (entry # rest) \<Rightarrow>
          addDebugLine mapView (debug_line entry)
            (addDebugRay mapView (debug_ray entry) (debug_length entry) ''red'' 0.3 0.2 debugGroup))"

text \<open>
  \<^verbatim>\<open>addDebugIntersect\<close>. Where the geometry has no bounding box yet, the code computes one and
  keeps it in the geometry; the model reads the same box through \<open>computeBoundingBox\<close> and
  does not record the write, the scene being an input that is not passed on.
\<close>

definition addDebugIntersect ::
  "Externals \<Rightarrow> MapView \<Rightarrow> Intersection \<Rightarrow> DebugObject list \<Rightarrow> error + DebugObject list"
where
  "addDebugIntersect ext mapView intersect debugGroup =
     (if \<not> isMesh (objectClass (object intersect)) then Inr debugGroup
      else
        let geom = meshGeometry (object intersect);
            bbox = (case geometry_boundingBox geom of
                      None \<Rightarrow> computeBoundingBox ext geom
                    | Some b \<Rightarrow> b);
            debugGroup1 = addDebugBBox mapView (object_position (object intersect)) bbox ''blue'' debugGroup
        in
          (case getIntersectedFeatureIndex intersect of
             Inl e \<Rightarrow> Inl e
           | Inr resolved \<Rightarrow>
               let featureIndex = (case resolved of None \<Rightarrow> 0 | Some n \<Rightarrow> n) in
                 (case object_userData (object intersect) of
                    None \<Rightarrow> Inl TypeError
                  | Some ud \<Rightarrow>
                      (case feature ud of
                         None \<Rightarrow> Inl TypeError
                       | Some featureData \<Rightarrow>
                           (case boundingVolumes featureData of
                              None \<Rightarrow> Inr (addDebugGeometry mapView geom debugGroup1)
                            | Some volumes \<Rightarrow>
                                if int (length volumes) > featureIndex
                                then
                                  (case addDebugBSphere mapView (object_position (object intersect))
                                          (js_index volumes featureIndex) ''magenta'' debugGroup1 of
                                     Inl e \<Rightarrow> Inl e
                                   | Inr debugGroup2 \<Rightarrow> Inr (addDebugGeometry mapView geom debugGroup2))
                                else Inr (addDebugGeometry mapView geom debugGroup1))))))"

subsection \<open>One raw hit\<close>

definition addObjInfo :: "TileFeatureData \<Rightarrow> Intersection \<Rightarrow> PickResult \<Rightarrow> error + PickResult"
where
  "addObjInfo featureData intersect pickResult =
     (case objInfos featureData of
        None \<Rightarrow> Inr pickResult
      | Some infos \<Rightarrow>
          (case getIntersectedFeatureIndex intersect of
             Inl e \<Rightarrow> Inl e
           | Inr None \<Rightarrow> Inr pickResult
           | Inr (Some featureIndex) \<Rightarrow>
               Inr (pickResult\<lparr>userData :=
                      (case js_index infos featureIndex of
                         None \<Rightarrow> None
                       | Some info \<Rightarrow> info)\<rparr>)))"

text \<open>The \<^verbatim>\<open>switch\<close> on \<^verbatim>\<open>featureData.geometryType\<close> that sets \<^verbatim>\<open>pickObjectType\<close>.\<close>

fun pickObjectType :: "GeometryType option \<Rightarrow> PickObjectType" where
  "pickObjectType (Some GeometryType_Point) = Point"
| "pickObjectType (Some GeometryType_Text) = Point"
| "pickObjectType (Some GeometryType_Line) = Line"
| "pickObjectType (Some GeometryType_ExtrudedLine) = Line"
| "pickObjectType (Some GeometryType_SolidLine) = Line"
| "pickObjectType (Some GeometryType_TextPath) = Line"
| "pickObjectType (Some GeometryType_Polygon) = Area"
| "pickObjectType (Some GeometryType_ExtrudedPolygon) = Area"
| "pickObjectType (Some GeometryType_Object3D) = Object3D"
| "pickObjectType _ = Unspecified"

text \<open>
  The body of the loop over \<^verbatim>\<open>intersects\<close>: the pick result pushed for one raw hit, and
  the debug helpers after it.
\<close>

definition processIntersect ::
  "Externals \<Rightarrow> MapView \<Rightarrow> PickHandler \<Rightarrow> Intersection \<Rightarrow> DebugObject list
     \<Rightarrow> error + (PickResult \<times> DebugObject list)"
where
  "processIntersect ext mapView handler intersect debugGroup =
     (let pickResult =
            \<lparr>type = Unspecified, point = WorldPoint (hit_point intersect),
             distance = hit_distance intersect, featureId = None,
             intersection = Some intersect, technique = None, userData = None\<rparr>
      in
        (case object_userData (object intersect) of
           None \<Rightarrow> Inr (pickResult, debugGroup)
         | Some ud \<Rightarrow>
             (case feature ud of
                None \<Rightarrow> Inr (pickResult, debugGroup)
              | Some featureData \<Rightarrow>
                  (case addDebugIntersect ext mapView intersect debugGroup of
                     Inl e \<Rightarrow> Inl e
                   | Inr debugGroup1 \<Rightarrow>
                       let pickResult1 =
                             (if enablePickTechnique handler
                              then pickResult\<lparr>technique := userData_technique ud\<rparr>
                              else pickResult)
                       in
                         (case addObjInfo featureData intersect pickResult1 of
                            Inl e \<Rightarrow> Inl e
                          | Inr pickResult2 \<Rightarrow>
                              let pickResult3 =
                                    (case objInfos featureData of
                                       None \<Rightarrow> pickResult2
                                     | Some infos \<Rightarrow>
                                         pickResult2\<lparr>featureId :=
                                           (if length infos = 1
                                            then Some (getFeatureId ext
                                                   (case js_index infos 0 of
                                                      None \<Rightarrow> None
                                                    | Some info \<Rightarrow> info))
                                            else None)\<rparr>)
                              in Inr (pickResult3\<lparr>type :=
                                        pickObjectType (geometryType featureData)\<rparr>,
                                      debugGroup1))))))"

fun processIntersects ::
  "Externals \<Rightarrow> MapView \<Rightarrow> PickHandler \<Rightarrow> Intersection list \<Rightarrow> PickResult list
     \<Rightarrow> DebugObject list \<Rightarrow> error + (PickResult list \<times> DebugObject list)"
where
  "processIntersects ext mapView handler [] pickResults debugGroup = Inr (pickResults, debugGroup)"
| "processIntersects ext mapView handler (intersect # rest) pickResults debugGroup =
     (case processIntersect ext mapView handler intersect debugGroup of
        Inl e \<Rightarrow> Inl e
      | Inr (pickResult, debugGroup1) \<Rightarrow>
          processIntersects ext mapView handler rest (pickResults @ [pickResult]) debugGroup1)"

subsection \<open>The query\<close>

text \<open>Labels: the results \<^verbatim>\<open>pickTextElements\<close> appends, none without a renderer.\<close>

definition pickTextElements :: "MapView \<Rightarrow> Vector3 \<Rightarrow> PickResult list" where
  "pickTextElements mapView worldPos =
     (case textElementsRenderer mapView of
        None \<Rightarrow> []
      | Some pick \<Rightarrow>
          (case worldPos of
             (wx, wy, wz) \<Rightarrow>
               pick (wx * clientWidth mapView * 0.5 * pixelRatio mapView,
                     wy * clientHeight mapView * 0.5 * pixelRatio mapView)))"

text \<open>
  The bounding box of a tile as the cull tests it: \<^verbatim>\<open>tmpOBB.copy(tile.boundingBox)\<close>, then
  \<^verbatim>\<open>tmpOBB.position.sub(this.mapView.worldCenter)\<close>.
\<close>

definition tileOBB :: "MapView \<Rightarrow> Tile \<Rightarrow> OrientedBox3" where
  "tileOBB mapView tile =
     (boundingBox tile)\<lparr>position := vsub (position (boundingBox tile)) (worldCenter mapView)\<rparr>"

text \<open>
  The loop over the rendered tiles of one data source. The state is the pair of the raw hits
  collected so far and the handler (its \<open>tmpOBB\<close> and debug helpers change).
\<close>

fun intersectTiles ::
  "Externals \<Rightarrow> MapView \<Rightarrow> Ray \<Rightarrow> Tile list \<Rightarrow> Intersection list \<times> PickHandler
     \<Rightarrow> Intersection list \<times> PickHandler"
where
  "intersectTiles ext mapView ray [] state = state"
| "intersectTiles ext mapView ray (tile # tiles) (intersects, handler) =
     (let obb = tileOBB mapView tile;
          handler1 = handler\<lparr>tmpOBB := obb\<rparr>
      in
        if intersectsRay ext obb ray \<noteq> None
        then intersectTiles ext mapView ray tiles
               (intersectObjects ext ray (objects tile) intersects,
                handler1\<lparr>m_debugGroup :=
                   addDebugWorldOBBox (boundingBox tile) ''red'' (m_debugGroup handler1)\<rparr>)
        else intersectTiles ext mapView ray tiles (intersects, handler1))"

fun intersectDataSources ::
  "Externals \<Rightarrow> MapView \<Rightarrow> Ray \<Rightarrow> DataSourceTileList list \<Rightarrow> Intersection list \<times> PickHandler
     \<Rightarrow> Intersection list \<times> PickHandler"
where
  "intersectDataSources ext mapView ray [] state = state"
| "intersectDataSources ext mapView ray (entry # entries) state =
     (if dataSource_name entry = ''Terrain'' \<or> dataSource_name entry = ''background''
      then intersectDataSources ext mapView ray entries state
      else intersectDataSources ext mapView ray entries
             (intersectTiles ext mapView ray (renderedTiles entry) state))"

text \<open>
  Roads: \<^verbatim>\<open>forEachVisibleTile\<close> calls \<^verbatim>\<open>this.m_roadPicker!.intersectRoads\<close> for each visible
  tile; without a road picker the first call raises a \<^verbatim>\<open>TypeError\<close>.
\<close>

fun intersectRoads ::
  "RoadPicker option \<Rightarrow> Vector3 \<Rightarrow> Vector3 \<Rightarrow> Tile list \<Rightarrow> PickResult list
     \<Rightarrow> error + PickResult list"
where
  "intersectRoads picker cameraPos planeIntersectPosition [] pickResults = Inr pickResults"
| "intersectRoads picker cameraPos planeIntersectPosition (tile # tiles) pickResults =
     (case picker of
        None \<Rightarrow> Inl TypeError
      | Some roads \<Rightarrow>
          intersectRoads picker cameraPos planeIntersectPosition tiles
            (pickResults @ roads tile cameraPos planeIntersectPosition))"

definition planeIntersectPosition :: "Externals \<Rightarrow> Ray \<Rightarrow> Vector3" where
  "planeIntersectPosition ext ray =
     (case intersectPlane ext ray of None \<Rightarrow> (0, 0, 0) | Some p \<Rightarrow> p)"

definition compareDistance :: "PickResult \<Rightarrow> PickResult \<Rightarrow> real" where
  "compareDistance a b = distance a - distance b"

definition intersectMapObjects ::
  "Externals \<Rightarrow> MapView \<Rightarrow> PickHandler \<Rightarrow> real \<Rightarrow> real \<Rightarrow> error + (PickResult list \<times> PickHandler)"
where
  "intersectMapObjects ext mapView handler x y =
     (let handler0 = handler\<lparr>m_debugGroup := []\<rparr>;
          worldPos = getNormalizedScreenCoordinates mapView x y;
          ray = raycasterFromScreenPoint mapView x y;
          labels = pickTextElements mapView worldPos
      in
        (case intersectDataSources ext mapView ray (dataSourceTileList mapView) ([], handler0) of
           (intersects, handler1) \<Rightarrow>
             (case processIntersects ext mapView handler1 intersects labels
                     (m_debugGroup handler1) of
                Inl e \<Rightarrow> Inl e
              | Inr (pickResults, debugGroup) \<Rightarrow>
                  let ray1 = (if enableRoadPicking handler1
                              then setFromCamera ext worldPos (camera mapView) else ray)
                  in
                    (case (if enableRoadPicking handler1
                           then intersectRoads (m_roadPicker handler1)
                                  (camera_position (camera mapView))
                                  (planeIntersectPosition ext ray1)
                                  (visibleTiles mapView) pickResults
                           else Inr pickResults) of
                       Inl e \<Rightarrow> Inl e
                     | Inr merged \<Rightarrow>
                         let sorted_results = array_sort compareDistance merged;
                             debugGroup1 = (case sorted_results of
                                         [] \<Rightarrow> debugGroup
                                       | first # others \<Rightarrow>
                                           addDebugRay mapView ray1 (distance first) ''yellow''
                                             0.1 0.01 debugGroup)
                         in Inr (sorted_results, handler1\<lparr>m_debugGroup := debugGroup1\<rparr>)))))"

subsection \<open>The phases of a query\<close>

text \<open>
  The three groups of results a query merges, each as the query computes it: the label
  hits, the results pushed for the raw geometry hits, and the road hits.
\<close>

definition labelHits :: "MapView \<Rightarrow> real \<Rightarrow> real \<Rightarrow> PickResult list" where
  "labelHits mapView x y = pickTextElements mapView (getNormalizedScreenCoordinates mapView x y)"

definition rawIntersects ::
  "Externals \<Rightarrow> MapView \<Rightarrow> PickHandler \<Rightarrow> real \<Rightarrow> real \<Rightarrow> Intersection list \<times> PickHandler"
where
  "rawIntersects ext mapView handler x y =
     intersectDataSources ext mapView (raycasterFromScreenPoint mapView x y)
       (dataSourceTileList mapView) ([], handler\<lparr>m_debugGroup := []\<rparr>)"

definition geometryHits ::
  "Externals \<Rightarrow> MapView \<Rightarrow> PickHandler \<Rightarrow> real \<Rightarrow> real \<Rightarrow> error + PickResult list"
where
  "geometryHits ext mapView handler x y =
     (case rawIntersects ext mapView handler x y of
        (intersects, handler1) \<Rightarrow>
          map_sum id fst
            (processIntersects ext mapView handler1 intersects [] (m_debugGroup handler1)))"

definition roadHits ::
  "Externals \<Rightarrow> MapView \<Rightarrow> PickHandler \<Rightarrow> real \<Rightarrow> real \<Rightarrow> error + PickResult list"
where
  "roadHits ext mapView handler x y =
     (if enableRoadPicking handler
      then intersectRoads (m_roadPicker handler) (camera_position (camera mapView))
             (planeIntersectPosition ext
                (setFromCamera ext (getNormalizedScreenCoordinates mapView x y) (camera mapView)))
             (visibleTiles mapView) []
      else Inr [])"

subsection \<open>The wording of the specification\<close>

text \<open>
  The buffer-local index of a hit, in the spec's words: "\<^verbatim>\<open>faceIndex*3\<close> if a face index is
  present, else the raw vertex index".
\<close>

definition spec_bufferLocalIndex :: "Intersection \<Rightarrow> int option" where
  "spec_bufferLocalIndex hit =
     (case faceIndex hit of Number f \<Rightarrow> Some (f * 3) | _ \<Rightarrow> index hit)"

text \<open>"The count of offsets \<open>\<le>\<close> the buffer-local index".\<close>

definition spec_countOffsets :: "int list \<Rightarrow> int \<Rightarrow> nat" where
  "spec_countOffsets offsets target = length (filter (\<lambda>offset. offset \<le> target) offsets)"

text \<open>
  The binary search the spec recommends: "first offset greater than the target, then step
  back one". \<open>spec_firstGreater\<close> narrows the range \<open>[lo, hi)\<close> of positions that may hold the
  first offset greater than the target.
\<close>

function spec_firstGreater :: "int list \<Rightarrow> int \<Rightarrow> nat \<Rightarrow> nat \<Rightarrow> nat" where
  "spec_firstGreater offsets target lo hi =
     (if lo < hi
      then (if offsets ! ((lo + hi) div 2) > target
            then spec_firstGreater offsets target lo ((lo + hi) div 2)
            else spec_firstGreater offsets target ((lo + hi) div 2 + 1) hi)
      else lo)"
  by pat_completeness auto
termination
  by (relation "measure (\<lambda>(offsets, target, lo, hi). hi - lo)") auto

definition spec_binarySearch :: "int list \<Rightarrow> int \<Rightarrow> int" where
  "spec_binarySearch offsets target =
     int (spec_firstGreater offsets target 0 (length offsets)) - 1"

subsection \<open>Sample scenes\<close>

definition sample_geometry :: BufferGeometry where
  "sample_geometry = \<lparr>geometry_boundingBox = None, geometry_debug = None\<rparr>"

definition sample_infos :: "ObjInfo option list" where
  "sample_infos = [Some [(''id'', 7)], Some [(''id'', 8)], Some [(''id'', 9)]]"

definition sample_feature :: "int list option \<Rightarrow> TileFeatureData" where
  "sample_feature ss =
     \<lparr>geometryType = Some GeometryType_Polygon, starts = ss,
      objInfos = Some sample_infos, boundingVolumes = None\<rparr>"

definition sample_object :: "ObjectClass \<Rightarrow> TileFeatureData option \<Rightarrow> SceneObject" where
  "sample_object cls fd =
     \<lparr>objectClass = cls,
      object_userData = Some \<lparr>feature = fd, userData_technique = Some ''fill''\<rparr>,
      object_position = (0, 0, 0), object_geometry = sample_geometry\<rparr>"

definition sample_hit ::
  "ObjectClass \<Rightarrow> TileFeatureData option \<Rightarrow> FaceIndex \<Rightarrow> int option \<Rightarrow> Intersection"
where
  "sample_hit cls fd face vertex =
     \<lparr>hit_distance = 5, hit_point = (1, 2, 3), faceIndex = face, index = vertex,
      object = sample_object cls fd\<rparr>"

definition sample_ext :: Externals where
  "sample_ext =
     \<lparr>intersectsRay = (\<lambda>obb ray. if vz (position obb) = 0 then Some 1 else None),
      intersectObjects =
        (\<lambda>ray objs target.
           target @ map (\<lambda>obj. \<lparr>hit_distance = 5, hit_point = (1, 2, 3), faceIndex = Number 4,
                                 index = None, object = obj\<rparr>) objs),
      computeBoundingBox = (\<lambda>geom. \<lparr>box_min = (0, 0, 0), box_max = (1, 1, 1)\<rparr>),
      setFromCamera = (\<lambda>worldPos cam. \<lparr>origin = camera_position cam, direction = (0, 0, - 1)\<rparr>),
      intersectPlane = (\<lambda>ray. Some (0, 0, 0)),
      getFeatureId = (\<lambda>info. 0)\<rparr>"

definition sample_box :: "real \<Rightarrow> OrientedBox3" where
  "sample_box z =
     \<lparr>xAxis = (1, 0, 0), yAxis = (0, 1, 0), zAxis = (0, 0, 1), position = (0, 0, z),
      extents = (1, 1, 1)\<rparr>"

definition sample_tile_of :: "nat \<Rightarrow> real \<Rightarrow> TileFeatureData \<Rightarrow> Tile" where
  "sample_tile_of key z fd =
     \<lparr>tileKey = key, boundingBox = sample_box z, objects = [sample_object Mesh (Some fd)]\<rparr>"

definition sample_tile :: "nat \<Rightarrow> real \<Rightarrow> Tile" where
  "sample_tile key z = sample_tile_of key z (sample_feature (Some [0, 10, 25]))"

text \<open>Feature metadata with bounding volumes, one per feature.\<close>

definition sample_feature_volumes :: "int list option \<Rightarrow> TileFeatureData" where
  "sample_feature_volumes ss =
     (sample_feature ss)\<lparr>boundingVolumes :=
        Some [\<lparr>center = (0, 0, 0), radius = 1\<rparr>, \<lparr>center = (4, 0, 0), radius = 2\<rparr>]\<rparr>"

definition sample_label :: "real \<Rightarrow> PickResult" where
  "sample_label d =
     \<lparr>type = Text, point = ScreenPoint (0, 0), distance = d, featureId = None,
      intersection = None, technique = None, userData = None\<rparr>"

definition sample_road :: "real \<Rightarrow> PickResult" where
  "sample_road d =
     \<lparr>type = Line, point = WorldPoint (0, 0, 0), distance = d, featureId = None,
      intersection = None, technique = Some ''solid-line'', userData = None\<rparr>"

text \<open>
  A map view with a terrain source and one vector source; of the two vector tiles only the
  one in the plane \<open>z = 0\<close> meets the ray. \<open>sample_mapView_missed\<close> is the same view with
  only the tile the ray misses.
\<close>

definition sample_mapView :: "Tile list \<Rightarrow> MapView" where
  "sample_mapView tiles =
     \<lparr>textElementsRenderer = Some (\<lambda>pos. [sample_label 9, sample_label 5]),
      clientWidth = 800, clientHeight = 600, pixelRatio = 1,
      getNormalizedScreenCoordinates = (\<lambda>x y. (0, 0, 0)),
      raycasterFromScreenPoint = (\<lambda>x y. \<lparr>origin = (0, 0, 10), direction = (0, 0, - 1)\<rparr>),
      dataSourceTileList =
        [\<lparr>dataSource_name = ''Terrain'', renderedTiles = [sample_tile 1 0]\<rparr>,
         \<lparr>dataSource_name = ''omv'', renderedTiles = tiles\<rparr>],
      visibleTiles = [sample_tile 2 0],
      worldCenter = (0, 0, 0),
      camera = \<lparr>camera_position = (0, 0, 10), camera_matrix = []\<rparr>\<rparr>"

definition sample_handler :: PickHandler where
  "sample_handler =
     \<lparr>enableRoadPicking = True, enablePickTechnique = False,
      m_roadPicker = Some (\<lambda>tile cameraPos ground. [sample_road 5, sample_road 2]),
      m_debugGroup = [], tmpOBB = sample_box 0\<rparr>"

text \<open>The pick result of the mesh hit of \<open>sample_ext\<close> on the object of \<open>sample_tile\<close>.\<close>

definition sample_area :: PickResult where
  "sample_area =
     \<lparr>type = Area, point = WorldPoint (1, 2, 3), distance = 5, featureId = None,
      intersection =
        Some (sample_hit Mesh (Some (sample_feature (Some [0, 10, 25]))) (Number 4) None),
      technique = None, userData = Some [(''id'', 8)]\<rparr>"

section \<open>Properties\<close>

subsection \<open>The scan over the offsets\<close>

text \<open>The loop counts the entries up to the first one greater than the index.\<close>

lemma scanStarts_takeWhile:
  "scanStarts ss k n = n + int (length (takeWhile (\<lambda>s. s \<le> k) ss))"
  by (induction ss arbitrary: n) auto

lemma takeWhile_filter_sorted:
  "sorted ss \<Longrightarrow> takeWhile (\<lambda>s. s \<le> k) ss = filter (\<lambda>s. s \<le> (k::int)) ss"
proof (induction ss)
  case Nil
  then show ?case by simp
next
  case (Cons s ss)
  show ?case
  proof (cases "s \<le> k")
    case True
    with Cons show ?thesis by simp
  next
    case False
    with Cons.prems have "\<forall>t \<in> set ss. \<not> t \<le> k" by auto
    then have "filter (\<lambda>s. s \<le> k) ss = []" by (simp add: filter_empty_conv)
    with False show ?thesis by simp
  qed
qed

lemma scanStarts_count:
  "sorted ss \<Longrightarrow> scanStarts ss k 0 - 1 = int (spec_countOffsets ss k) - 1"
  by (simp add: scanStarts_takeWhile takeWhile_filter_sorted spec_countOffsets_def)

lemma filter_take_all:
  assumes "n \<le> length ss" "\<forall>i<n. P (ss ! i)" "\<forall>i. n \<le> i \<and> i < length ss \<longrightarrow> \<not> P (ss ! i)"
  shows "length (filter P ss) = n"
proof -
  have "filter P (take n ss) = take n ss"
    using assms by (auto simp: filter_id_conv in_set_conv_nth)
  moreover have "filter P (drop n ss) = []"
    using assms by (auto simp: filter_empty_conv in_set_conv_nth)
  moreover have "filter P ss = filter P (take n ss) @ filter P (drop n ss)"
    by (metis append_take_drop_id filter_append)
  ultimately have "filter P ss = take n ss" by simp
  then show ?thesis using assms(1) by simp
qed

text \<open>
  The invariant of the binary search: everything left of \<open>lo\<close> is at most the target,
  everything from \<open>hi\<close> on is greater.
\<close>

lemma spec_firstGreater_count:
  assumes "sorted ss" "hi \<le> length ss"
    "\<forall>i<lo. ss ! i \<le> k" "\<forall>i. hi \<le> i \<and> i < length ss \<longrightarrow> k < ss ! i" "lo \<le> hi"
  shows "spec_firstGreater ss k lo hi = spec_countOffsets ss k"
  using assms
proof (induction ss k lo hi rule: spec_firstGreater.induct)
  case (1 offsets target lo hi)
  show ?case
  proof (cases "lo < hi")
    case False
    with "1.prems" have eq: "lo = hi" by simp
    have "length (filter (\<lambda>s. s \<le> target) offsets) = lo"
      using "1.prems" eq by (intro filter_take_all) auto
    with False show ?thesis by (simp add: spec_countOffsets_def)
  next
    case True
    let ?mid = "(lo + hi) div 2"
    have mid: "lo \<le> ?mid" "?mid < hi" using True by auto
    show ?thesis
    proof (cases "offsets ! ?mid > target")
      case gt: True
      have "\<forall>i. ?mid \<le> i \<and> i < length offsets \<longrightarrow> target < offsets ! i"
      proof (intro allI impI)
        fix i assume i: "?mid \<le> i \<and> i < length offsets"
        with "1.prems"(1) have "offsets ! ?mid \<le> offsets ! i"
          by (auto simp: sorted_iff_nth_mono)
        with gt show "target < offsets ! i" by simp
      qed
      with "1.IH"(1)[OF True gt] "1.prems" mid True gt
      have "spec_firstGreater offsets target lo ?mid = spec_countOffsets offsets target"
        by auto
      with True gt show ?thesis by simp
    next
      case le: False
      have "\<forall>i<?mid + 1. offsets ! i \<le> target"
      proof (intro allI impI)
        fix i assume i: "i < ?mid + 1"
        with "1.prems"(1,2) mid have "offsets ! i \<le> offsets ! ?mid"
          by (auto simp: sorted_iff_nth_mono)
        with le show "offsets ! i \<le> target" by simp
      qed
      with "1.IH"(2)[OF True le] "1.prems" mid True le
      have "spec_firstGreater offsets target (?mid + 1) hi = spec_countOffsets offsets target"
        by auto
      with True le show ?thesis by simp
    qed
  qed
qed

subsection \<open>The feature index resolver\<close>

lemma resolver_scan:
  assumes "object_userData (object hit) = Some ud" "feature ud = Some fd"
    "starts fd = Some ss" "objectClass (object hit) \<noteq> MapViewPoints"
    "2 \<le> length ss" "faceIndex hit \<noteq> Null" "spec_bufferLocalIndex hit = Some k"
  shows "getIntersectedFeatureIndex hit = Inr (Some (scanStarts ss k 0 - 1))"
  using assms
  by (auto simp: getIntersectedFeatureIndex_def spec_bufferLocalIndex_def
      split: option.splits FaceIndex.splits)

text \<open>
  Where the claimed rule holds: on an object that is not a point primitive, for a hit whose
  face index is a number, or is left out while the vertex index is there, the resolver returns
  the count of \<^verbatim>\<open>starts\<close> entries up to the buffer-local index, minus one.
\<close>

lemma resolver_scan_count:
  assumes "object_userData (object hit) = Some ud" and "feature ud = Some fd"
    and "objectClass (object hit) \<noteq> MapViewPoints"
    and "starts fd = Some ss" and "sorted_wrt (<) ss" and "2 \<le> length ss"
    and "faceIndex hit \<noteq> Null" and "spec_bufferLocalIndex hit = Some k"
  shows "getIntersectedFeatureIndex hit = Inr (Some (int (spec_countOffsets ss k) - 1))"
proof -
  have "sorted ss" using assms(5) by (simp add: strict_sorted_iff)
  then show ?thesis
    using resolver_scan[OF assms(1,2,4,3,6,7,8)] by (simp add: scanStarts_count)
qed

text \<open>
  The examples of the spec: \<^verbatim>\<open>starts = [0, 10, 25]\<close>; the buffer-local indices 12, 0 and 30
  are the face indices 4, 0 and 10 of mesh hits, the index 10 is the vertex index of a hit
  without face index.
\<close>

lemma resolver_scan_examples:
  "getIntersectedFeatureIndex
     (sample_hit Mesh (Some (sample_feature (Some [0, 10, 25]))) (Number 4) None)
     = Inr (Some 1)
   \<and> getIntersectedFeatureIndex
     (sample_hit Mesh (Some (sample_feature (Some [0, 10, 25]))) (Number 0) None)
     = Inr (Some 0)
   \<and> getIntersectedFeatureIndex
     (sample_hit Mesh (Some (sample_feature (Some [0, 10, 25]))) (Number 10) None)
     = Inr (Some 2)
   \<and> getIntersectedFeatureIndex
     (sample_hit OtherObject (Some (sample_feature (Some [0, 10, 25]))) Undefined (Some 10))
     = Inr (Some 1)"
  by (simp add: getIntersectedFeatureIndex_def sample_hit_def sample_object_def
      sample_feature_def)

text \<open>
  Claim C2: for every strictly ascending \<^verbatim>\<open>starts\<close> list with at least two entries and every
  hit carrying a face index or a vertex index, the resolver returns the count of \<^verbatim>\<open>starts\<close>
  entries that are at most the buffer-local index, minus one, the buffer-local index being
  \<^verbatim>\<open>faceIndex*3\<close> when a face index is present, else the raw vertex index.

  The code breaks this on the hits of lines. Such a hit carries \<^verbatim>\<open>faceIndex: null\<close> and its
  vertex index, here 4, with \<^verbatim>\<open>starts = [0, 2, 4]\<close>: no face index is present, the buffer-local
  index is the vertex index 4, and the claimed feature index is \<open>3 - 1 = 2\<close>. The resolver
  tests the face index against \<^verbatim>\<open>undefined\<close> only, takes \<^verbatim>\<open>null\<close> for a face index, scans with
  \<^verbatim>\<open>null * 3 = 0\<close> and returns 0.
\<close>

theorem C2_line_hit_ignores_vertex_index:
  "sorted_wrt (<) [0, 2, 4 :: int]
   \<and> objectClass
       (object (sample_hit OtherObject (Some (sample_feature (Some [0, 2, 4]))) Null (Some 4)))
       = OtherObject
   \<and> spec_bufferLocalIndex
       (sample_hit OtherObject (Some (sample_feature (Some [0, 2, 4]))) Null (Some 4)) = Some 4
   \<and> int (spec_countOffsets [0, 2, 4] 4) - 1 = 2
   \<and> getIntersectedFeatureIndex
       (sample_hit OtherObject (Some (sample_feature (Some [0, 2, 4]))) Null (Some 4))
       = Inr (Some 0)"
  by (simp add: getIntersectedFeatureIndex_def sample_hit_def sample_object_def
      sample_feature_def spec_bufferLocalIndex_def spec_countOffsets_def)

text \<open>
  Claim C3. On every ascending list of offsets (equal neighbours allowed) and for every
  buffer-local index, the binary search of the spec (the position of the first offset greater
  than the index, minus one) returns what the linear scan of the resolver returns.
\<close>

theorem C3_binary_search_equals_scan:
  "sorted offsets \<Longrightarrow> spec_binarySearch offsets target = scanStarts offsets target 0 - 1"
  using spec_firstGreater_count[of offsets "length offsets" 0 target]
  by (simp add: spec_binarySearch_def scanStarts_count)

theorem C3_binary_search_equals_scan_witness:
  "sorted [0, 10, 10, 25 :: int] \<and> spec_binarySearch [0, 10, 10, 25] 10 = 2
   \<and> scanStarts [0, 10, 10, 25] 10 0 - 1 = 2"
  using C3_binary_search_equals_scan[of "[0, 10, 10, 25]" 10] by simp

text \<open>
  Claim C7. For a hit on a point primitive (\<^verbatim>\<open>MapViewPoints\<close>) with feature metadata the
  resolver returns the raw point index of the hit, whatever \<^verbatim>\<open>starts\<close> is.
\<close>

theorem C7_point_primitive_raw_index:
  assumes "object_userData (object hit) = Some ud" and "feature ud = Some fd"
    and "objectClass (object hit) = MapViewPoints"
  shows "getIntersectedFeatureIndex hit = Inr (index hit)"
  using assms by (simp add: getIntersectedFeatureIndex_def)

theorem C7_point_primitive_raw_index_witness:
  "starts (sample_feature (Some [0, 10, 25])) = Some [0, 10, 25]
   \<and> getIntersectedFeatureIndex
       (sample_hit MapViewPoints (Some (sample_feature (Some [0, 10, 25]))) Undefined (Some 11))
       = Inr (Some 11)"
  using C7_point_primitive_raw_index
    [of "sample_hit MapViewPoints (Some (sample_feature (Some [0, 10, 25]))) Undefined (Some 11)"
        "\<lparr>feature = Some (sample_feature (Some [0, 10, 25])),
          userData_technique = Some ''fill''\<rparr>"
        "sample_feature (Some [0, 10, 25])"]
  by (simp add: sample_hit_def sample_object_def sample_feature_def)

text \<open>
  Claim C8, amended. For a hit on an object that is not a point primitive, with feature
  metadata whose \<^verbatim>\<open>starts\<close> has exactly one entry, and carrying a face index or a vertex
  index, the resolver returns 0, whatever the buffer-local index is.
\<close>

theorem C8_single_start_resolves_to_zero:
  assumes "object_userData (object hit) = Some ud" and "feature ud = Some fd"
    and "objectClass (object hit) \<noteq> MapViewPoints"
    and "starts fd = Some [offset]" and "spec_bufferLocalIndex hit = Some k"
  shows "getIntersectedFeatureIndex hit = Inr (Some 0)"
  using assms
  by (auto simp: getIntersectedFeatureIndex_def spec_bufferLocalIndex_def
      split: option.splits FaceIndex.splits)

theorem C8_single_start_resolves_to_zero_witness:
  "spec_bufferLocalIndex (sample_hit Mesh (Some (sample_feature (Some [7]))) (Number 1) None)
     = Some 3
   \<and> getIntersectedFeatureIndex
       (sample_hit Mesh (Some (sample_feature (Some [7]))) (Number 1) None) = Inr (Some 0)"
  using C8_single_start_resolves_to_zero
    [of "sample_hit Mesh (Some (sample_feature (Some [7]))) (Number 1) None"
        "\<lparr>feature = Some (sample_feature (Some [7])), userData_technique = Some ''fill''\<rparr>"
        "sample_feature (Some [7])" 7 3]
  by (simp add: sample_hit_def sample_object_def sample_feature_def spec_bufferLocalIndex_def)

text \<open>
  Claim C8 as stated fails: with a single entry in \<^verbatim>\<open>starts\<close>, a hit on a point primitive
  resolves to its raw index 5, and a mesh hit without face and vertex index is unresolved.
\<close>

theorem C8_single_start_counterexample:
  "getIntersectedFeatureIndex
     (sample_hit MapViewPoints (Some (sample_feature (Some [0]))) Undefined (Some 5)) = Inr (Some 5)
   \<and> getIntersectedFeatureIndex
     (sample_hit Mesh (Some (sample_feature (Some [0]))) Undefined None) = Inr None"
  by (simp add: getIntersectedFeatureIndex_def sample_hit_def sample_object_def
      sample_feature_def)

subsection \<open>One raw hit\<close>

lemma addDebugIntersect_not_mesh:
  "\<not> isMesh (objectClass (object hit)) \<Longrightarrow> addDebugIntersect ext mv hit dbg = Inr dbg"
  by (simp add: addDebugIntersect_def)

lemma addDebugIntersect_no_volumes:
  assumes "object_userData (object hit) = Some ud" "feature ud = Some fd"
    "boundingVolumes fd = None" "getIntersectedFeatureIndex hit = Inr r"
  shows "\<exists>dbg'. addDebugIntersect ext mv hit dbg = Inr dbg'"
  using assms by (simp add: addDebugIntersect_def Let_def)

lemma addDebugIntersect_unresolved:
  assumes "object_userData (object hit) = Some ud" "feature ud = Some fd"
    "getIntersectedFeatureIndex hit = Inr None"
  shows "\<exists>dbg'. addDebugIntersect ext mv hit dbg = Inr dbg'"
  using assms
  by (auto simp: addDebugIntersect_def Let_def addDebugBSphere_def js_index_def
      split: option.splits)

lemma processIntersect_no_feature:
  assumes "object_userData (object hit) = None
           \<or> (\<exists>ud. object_userData (object hit) = Some ud \<and> feature ud = None)"
  shows "\<exists>pr. processIntersect ext mv h hit dbg = Inr (pr, dbg) \<and> userData pr = None
            \<and> type pr = Unspecified"
  using assms by (auto simp: processIntersect_def Let_def)

lemma processIntersect_feature:
  assumes "object_userData (object hit) = Some ud" "feature ud = Some fd"
    "addDebugIntersect ext mv hit dbg = Inr dbg'" "getIntersectedFeatureIndex hit = Inr r"
  shows "\<exists>pr. processIntersect ext mv h hit dbg = Inr (pr, dbg')
           \<and> type pr = pickObjectType (geometryType fd)
           \<and> userData pr =
               (case objInfos fd of
                  None \<Rightarrow> None
                | Some infos \<Rightarrow>
                    (case r of
                       None \<Rightarrow> None
                     | Some featureIndex \<Rightarrow>
                         (case js_index infos featureIndex of
                            None \<Rightarrow> None
                          | Some info \<Rightarrow> info)))"
  using assms
  by (auto simp: processIntersect_def Let_def addObjInfo_def split: option.splits)

lemma processIntersect_type:
  assumes "object_userData (object hit) = Some ud" "feature ud = Some fd"
    "processIntersect ext mv h hit dbg = Inr (pr, dbg')"
  shows "type pr = pickObjectType (geometryType fd)"
  using assms
  by (auto simp: processIntersect_def Let_def split: option.splits sum.splits)


lemma scanStarts_all_greater:
  "ss \<noteq> [] \<Longrightarrow> \<forall>s \<in> set ss. k < s \<Longrightarrow> scanStarts ss k n = n"
  by (cases ss) auto

text \<open>Where every entry of \<^verbatim>\<open>starts\<close> is greater than the index the resolver returns \<open>-1\<close>.\<close>

lemma resolver_all_greater:
  assumes "object_userData (object hit) = Some ud" "feature ud = Some fd"
    "objectClass (object hit) \<noteq> MapViewPoints" "starts fd = Some ss" "2 \<le> length ss"
    "faceIndex hit \<noteq> Null" "spec_bufferLocalIndex hit = Some k" "\<forall>s \<in> set ss. k < s"
  shows "getIntersectedFeatureIndex hit = Inr (Some (- 1))"
proof -
  have "ss \<noteq> []" using assms(5) by auto
  then have "scanStarts ss k 0 = 0" using assms(8) by (rule scanStarts_all_greater)
  then show ?thesis using resolver_scan[OF assms(1,2,4,3,5,6,7)] by simp
qed

lemma sample_polygon_hit:
  "processIntersect sample_ext (sample_mapView []) sample_handler
     (sample_hit Mesh (Some (sample_feature (Some [0, 10, 25]))) (Number 4) None) []
   = Inr (\<lparr>type = Area, point = WorldPoint (1, 2, 3), distance = 5, featureId = None,
           intersection =
             Some (sample_hit Mesh (Some (sample_feature (Some [0, 10, 25]))) (Number 4) None),
           technique = None, userData = Some [(''id'', 8)]\<rparr>,
          [Box3Helper \<lparr>box_min = (0, 0, 0), box_max = (1, 1, 1)\<rparr> ''blue'' None])"
  by (simp add: processIntersect_def addDebugIntersect_def addObjInfo_def
      getIntersectedFeatureIndex_def addDebugGeometry_def addDebugBBox_def
      addDebugWorldBBox_def translate_def getSize_def js_index_def
      sample_hit_def sample_object_def sample_feature_def sample_infos_def sample_ext_def
      sample_mapView_def sample_handler_def sample_geometry_def Let_def)


text \<open>
  Claim C4. For a geometry hit whose feature metadata is absent, or (on an object that is not
  a point primitive) whose \<^verbatim>\<open>starts\<close> is undefined or empty or which carries neither a face
  index nor a vertex index, the resolver returns \<^verbatim>\<open>undefined\<close>, and the pick result pushed
  for the hit has no \<^verbatim>\<open>userData\<close>. Absent metadata is what the resolver tests:
  \<^verbatim>\<open>userData.feature\<close> is undefined.
\<close>

theorem C4_unresolved_without_userData:
  assumes "object_userData (object hit) = Some ud"
    and "feature ud = None
         \<or> (\<exists>fd. feature ud = Some fd \<and> objectClass (object hit) \<noteq> MapViewPoints
                \<and> (starts fd = None \<or> starts fd = Some []
                     \<or> (faceIndex hit = Undefined \<and> index hit = None)))"
  shows "getIntersectedFeatureIndex hit = Inr None
         \<and> (\<exists>pr dbg'. processIntersect ext mv h hit dbg = Inr (pr, dbg') \<and> userData pr = None)"
proof (cases "feature ud")
  case None
  with assms(1) have "getIntersectedFeatureIndex hit = Inr None"
    by (simp add: getIntersectedFeatureIndex_def)
  moreover from None assms(1)
  have "\<exists>pr. processIntersect ext mv h hit dbg = Inr (pr, dbg) \<and> userData pr = None
             \<and> type pr = Unspecified"
    by (intro processIntersect_no_feature) simp
  ultimately show ?thesis by blast
next
  case (Some fd)
  with assms(2) have cond: "objectClass (object hit) \<noteq> MapViewPoints"
    "starts fd = None \<or> starts fd = Some [] \<or> (faceIndex hit = Undefined \<and> index hit = None)"
    by auto
  have res: "getIntersectedFeatureIndex hit = Inr None"
    using assms(1) Some cond
    by (auto simp: getIntersectedFeatureIndex_def split: option.splits)
  obtain dbg' where "addDebugIntersect ext mv hit dbg = Inr dbg'"
    using addDebugIntersect_unresolved[OF assms(1) Some res] by blast
  from processIntersect_feature[OF assms(1) Some this res, of h]
  obtain pr where "processIntersect ext mv h hit dbg = Inr (pr, dbg')" "userData pr = None"
    by (auto split: option.splits)
  with res show ?thesis by blast
qed


theorem C4_unresolved_without_userData_witness:
  "getIntersectedFeatureIndex
       (sample_hit Mesh None (Number 4) None) = Inr None
   \<and> map_sum id (userData \<circ> fst)
       (processIntersect sample_ext (sample_mapView []) sample_handler
          (sample_hit Mesh None (Number 4) None) []) = Inr None
   \<and> getIntersectedFeatureIndex
       (sample_hit Mesh (Some (sample_feature_volumes None)) (Number 4) None) = Inr None
   \<and> map_sum id (userData \<circ> fst)
       (processIntersect sample_ext (sample_mapView []) sample_handler
          (sample_hit Mesh (Some (sample_feature_volumes None)) (Number 4) None) []) = Inr None
   \<and> getIntersectedFeatureIndex
       (sample_hit Mesh (Some (sample_feature_volumes (Some []))) (Number 4) None) = Inr None
   \<and> map_sum id (userData \<circ> fst)
       (processIntersect sample_ext (sample_mapView []) sample_handler
          (sample_hit Mesh (Some (sample_feature_volumes (Some []))) (Number 4) None) []) = Inr None
   \<and> getIntersectedFeatureIndex
       (sample_hit Mesh (Some (sample_feature_volumes (Some [0, 10, 25]))) Undefined None) = Inr None
   \<and> map_sum id (userData \<circ> fst)
       (processIntersect sample_ext (sample_mapView []) sample_handler
          (sample_hit Mesh (Some (sample_feature_volumes (Some [0, 10, 25]))) Undefined None) []) = Inr None"
proof -
  have "getIntersectedFeatureIndex (sample_hit Mesh None (Number 4) None) = Inr None
        \<and> (\<exists>pr dbg'. processIntersect sample_ext (sample_mapView []) sample_handler
               (sample_hit Mesh None (Number 4) None) [] = Inr (pr, dbg')
             \<and> userData pr = None)"
    by (rule C4_unresolved_without_userData
          [where ud = "\<lparr>feature = None, userData_technique = Some ''fill''\<rparr>"])
       (simp_all add: sample_hit_def sample_object_def sample_feature_volumes_def
          sample_feature_def)
  then have r1: "getIntersectedFeatureIndex (sample_hit Mesh None (Number 4) None) = Inr None
        \<and> map_sum id (userData \<circ> fst)
            (processIntersect sample_ext (sample_mapView []) sample_handler
               (sample_hit Mesh None (Number 4) None) []) = Inr None"
    by auto
  have "getIntersectedFeatureIndex (sample_hit Mesh (Some (sample_feature_volumes None)) (Number 4) None) = Inr None
        \<and> (\<exists>pr dbg'. processIntersect sample_ext (sample_mapView []) sample_handler
               (sample_hit Mesh (Some (sample_feature_volumes None)) (Number 4) None) [] = Inr (pr, dbg')
             \<and> userData pr = None)"
    by (rule C4_unresolved_without_userData
          [where ud = "\<lparr>feature = Some (sample_feature_volumes None), userData_technique = Some ''fill''\<rparr>"])
       (simp_all add: sample_hit_def sample_object_def sample_feature_volumes_def
          sample_feature_def)
  then have r2: "getIntersectedFeatureIndex (sample_hit Mesh (Some (sample_feature_volumes None)) (Number 4) None) = Inr None
        \<and> map_sum id (userData \<circ> fst)
            (processIntersect sample_ext (sample_mapView []) sample_handler
               (sample_hit Mesh (Some (sample_feature_volumes None)) (Number 4) None) []) = Inr None"
    by auto
  have "getIntersectedFeatureIndex (sample_hit Mesh (Some (sample_feature_volumes (Some []))) (Number 4) None) = Inr None
        \<and> (\<exists>pr dbg'. processIntersect sample_ext (sample_mapView []) sample_handler
               (sample_hit Mesh (Some (sample_feature_volumes (Some []))) (Number 4) None) [] = Inr (pr, dbg')
             \<and> userData pr = None)"
    by (rule C4_unresolved_without_userData
          [where ud = "\<lparr>feature = Some (sample_feature_volumes (Some [])), userData_technique = Some ''fill''\<rparr>"])
       (simp_all add: sample_hit_def sample_object_def sample_feature_volumes_def
          sample_feature_def)
  then have r3: "getIntersectedFeatureIndex (sample_hit Mesh (Some (sample_feature_volumes (Some []))) (Number 4) None) = Inr None
        \<and> map_sum id (userData \<circ> fst)
            (processIntersect sample_ext (sample_mapView []) sample_handler
               (sample_hit Mesh (Some (sample_feature_volumes (Some []))) (Number 4) None) []) = Inr None"
    by auto
  have "getIntersectedFeatureIndex (sample_hit Mesh (Some (sample_feature_volumes (Some [0, 10, 25]))) Undefined None) = Inr None
        \<and> (\<exists>pr dbg'. processIntersect sample_ext (sample_mapView []) sample_handler
               (sample_hit Mesh (Some (sample_feature_volumes (Some [0, 10, 25]))) Undefined None) [] = Inr (pr, dbg')
             \<and> userData pr = None)"
    by (rule C4_unresolved_without_userData
          [where ud = "\<lparr>feature = Some (sample_feature_volumes (Some [0, 10, 25])), userData_technique = Some ''fill''\<rparr>"])
       (simp_all add: sample_hit_def sample_object_def sample_feature_volumes_def
          sample_feature_def)
  then have r4: "getIntersectedFeatureIndex (sample_hit Mesh (Some (sample_feature_volumes (Some [0, 10, 25]))) Undefined None) = Inr None
        \<and> map_sum id (userData \<circ> fst)
            (processIntersect sample_ext (sample_mapView []) sample_handler
               (sample_hit Mesh (Some (sample_feature_volumes (Some [0, 10, 25]))) Undefined None) []) = Inr None"
    by auto
  from r1 r2 r3 r4 show ?thesis by (simp only: simp_thms)
qed

text \<open>
  Claim C5. The pick type of a geometry hit with feature metadata is read off the geometry
  type of the metadata by a fixed table: point and text to \<open>Point\<close>; line, extruded line,
  solid line and text path to \<open>Line\<close>; polygon and extruded polygon to \<open>Area\<close>; 3D object to
  \<open>Object3D\<close>; every other or no geometry type to \<open>Unspecified\<close>.
\<close>

theorem C5_pick_type_table:
  assumes "object_userData (object hit) = Some ud" and "feature ud = Some fd"
    and "processIntersect ext mv h hit dbg = Inr (pr, dbg')"
  shows "(geometryType fd = Some GeometryType_Point \<longrightarrow> type pr = Point)
       \<and> (geometryType fd = Some GeometryType_Text \<longrightarrow> type pr = Point)
       \<and> (geometryType fd = Some GeometryType_Line \<longrightarrow> type pr = Line)
       \<and> (geometryType fd = Some GeometryType_ExtrudedLine \<longrightarrow> type pr = Line)
       \<and> (geometryType fd = Some GeometryType_SolidLine \<longrightarrow> type pr = Line)
       \<and> (geometryType fd = Some GeometryType_TextPath \<longrightarrow> type pr = Line)
       \<and> (geometryType fd = Some GeometryType_Polygon \<longrightarrow> type pr = Area)
       \<and> (geometryType fd = Some GeometryType_ExtrudedPolygon \<longrightarrow> type pr = Area)
       \<and> (geometryType fd = Some GeometryType_Object3D \<longrightarrow> type pr = Object3D)
       \<and> ((\<exists>n. geometryType fd = Some (GeometryType_Other n)) \<or> geometryType fd = None
            \<longrightarrow> type pr = Unspecified)"
  using processIntersect_type[OF assms] by auto

theorem C5_pick_type_table_witness:
  "geometryType (sample_feature (Some [0, 10, 25])) = Some GeometryType_Polygon
   \<and> map_sum id (type \<circ> fst)
       (processIntersect sample_ext (sample_mapView []) sample_handler
          (sample_hit Mesh (Some (sample_feature (Some [0, 10, 25]))) (Number 4) None) [])
       = Inr Area"
  using C5_pick_type_table
    [OF _ _ sample_polygon_hit,
     of "\<lparr>feature = Some (sample_feature (Some [0, 10, 25])),
           userData_technique = Some ''fill''\<rparr>"
        "sample_feature (Some [0, 10, 25])"]
  by (simp add: sample_polygon_hit)
     (simp add: sample_hit_def sample_object_def sample_feature_def)

text \<open>
  Claim C10: if \<^verbatim>\<open>starts\<close> has at least two entries and each of them is greater than the
  buffer-local index, the resolver returns \<open>-1\<close>, the lookup of \<^verbatim>\<open>objInfos\<close> at \<open>-1\<close> yields no
  record, the pick result has no \<^verbatim>\<open>userData\<close>, and the query completes without error.

  The code breaks the last part. On a mesh hit with face index 4 (buffer-local index 12),
  \<^verbatim>\<open>starts = [20, 30]\<close> and bounding volumes in the metadata, the resolver returns \<open>-1\<close>; the
  debug overlay tests only \<^verbatim>\<open>boundingVolumes.length > featureIndex\<close>, reads
  \<^verbatim>\<open>boundingVolumes[-1]\<close>, which is undefined, and \<^verbatim>\<open>addDebugBSphere\<close> raises a \<^verbatim>\<open>TypeError\<close>
  on \<^verbatim>\<open>sphere.radius\<close>: the hit is not processed and the query aborts.
\<close>

theorem C10_debug_overlay_type_error:
  "spec_bufferLocalIndex
     (sample_hit Mesh (Some (sample_feature_volumes (Some [20, 30]))) (Number 4) None)
     = Some 12
   \<and> getIntersectedFeatureIndex
       (sample_hit Mesh (Some (sample_feature_volumes (Some [20, 30]))) (Number 4) None)
       = Inr (Some (- 1))
   \<and> js_index sample_infos (- 1) = None
   \<and> processIntersect sample_ext (sample_mapView []) sample_handler
       (sample_hit Mesh (Some (sample_feature_volumes (Some [20, 30]))) (Number 4) None) []
       = Inl TypeError
   \<and> intersectMapObjects sample_ext
       (sample_mapView [sample_tile_of 2 0 (sample_feature_volumes (Some [20, 30]))])
       sample_handler 1 1 = Inl TypeError"
  by (simp add: intersectMapObjects_def pickTextElements_def
      processIntersect_def addDebugIntersect_def addObjInfo_def
      getIntersectedFeatureIndex_def addDebugGeometry_def addDebugBBox_def
      addDebugWorldBBox_def addDebugWorldOBBox_def addDebugBSphere_def
      translate_def getSize_def js_index_def spec_bufferLocalIndex_def tileOBB_def
      sample_hit_def sample_object_def sample_feature_def sample_feature_volumes_def
      sample_infos_def sample_ext_def sample_box_def sample_tile_of_def sample_tile_def
      sample_mapView_def sample_handler_def sample_geometry_def Let_def)

text \<open>
  Without bounding volumes in the metadata the same hit goes through, and its pick result
  has no \<^verbatim>\<open>userData\<close>.
\<close>

lemma all_starts_greater_without_volumes:
  "getIntersectedFeatureIndex
     (sample_hit Mesh (Some (sample_feature (Some [20, 30]))) (Number 4) None)
     = Inr (Some (- 1))
   \<and> map_sum id (userData \<circ> fst)
       (processIntersect sample_ext (sample_mapView []) sample_handler
          (sample_hit Mesh (Some (sample_feature (Some [20, 30]))) (Number 4) None) [])
       = Inr None"
  by (simp add: processIntersect_def addDebugIntersect_def addObjInfo_def
      getIntersectedFeatureIndex_def addDebugGeometry_def addDebugBBox_def
      addDebugWorldBBox_def translate_def getSize_def js_index_def
      sample_hit_def sample_object_def sample_feature_def sample_infos_def sample_ext_def
      sample_mapView_def sample_handler_def sample_geometry_def Let_def)

subsection \<open>The whole query\<close>

text \<open>With the comparator of the query the sort is the library's stable sort by distance.\<close>

lemma insert_sorted_insort:
  "insert_sorted compareDistance x xs = insort_key distance x xs"
  by (induction xs) (auto simp: compareDistance_def)

lemma array_sort_sort_key: "array_sort compareDistance xs = sort_key distance xs"
proof -
  have "insert_sorted compareDistance = insort_key distance"
    by (intro ext) (rule insert_sorted_insort)
  then show ?thesis by (simp add: array_sort_def sort_key_def)
qed

lemma array_sort_sorted: "sorted (map distance (array_sort compareDistance xs))"
  by (simp add: array_sort_sort_key)

lemma array_sort_stable:
  "filter (\<lambda>r. distance r = d) (array_sort compareDistance xs)
     = filter (\<lambda>r. distance r = d) xs"
  by (simp add: array_sort_sort_key sort_key_stable)

lemma array_sort_length: "length (array_sort compareDistance xs) = length xs"
  by (simp add: array_sort_sort_key)

lemma array_sort_adjacent:
  "Suc i < length (array_sort compareDistance xs) \<Longrightarrow>
     distance (array_sort compareDistance xs ! i)
       \<le> distance (array_sort compareDistance xs ! Suc i)"
  using array_sort_sorted[of xs] sorted_nth_mono[of "map distance (array_sort compareDistance xs)" i "Suc i"]
  by simp

text \<open>Both loops that push results only append to what the accumulator holds.\<close>

lemma processIntersects_append:
  "processIntersects ext mv h hits acc dbg =
     (case processIntersects ext mv h hits [] dbg of
        Inl e \<Rightarrow> Inl e
      | Inr (ps, dbg') \<Rightarrow> Inr (acc @ ps, dbg'))"
proof (induction hits arbitrary: acc dbg)
  case Nil
  then show ?case by simp
next
  case (Cons hit hits)
  show ?case
  proof (cases "processIntersect ext mv h hit dbg")
    case (Inl e)
    then show ?thesis by simp
  next
    case (Inr res)
    obtain pr dbg1 where res: "res = (pr, dbg1)" by (cases res)
    show ?thesis
      using Inr res Cons.IH[of "acc @ [pr]" dbg1] Cons.IH[of "[pr]" dbg1]
      by (simp split: sum.splits prod.splits)
  qed
qed

lemma intersectRoads_append:
  "intersectRoads picker cam ground tiles acc =
     (case intersectRoads picker cam ground tiles [] of
        Inl e \<Rightarrow> Inl e
      | Inr rs \<Rightarrow> Inr (acc @ rs))"
proof (induction tiles arbitrary: acc)
  case Nil
  then show ?case by simp
next
  case (Cons tile tiles)
  show ?case
  proof (cases picker)
    case None
    then show ?thesis by simp
  next
    case (Some roads)
    show ?thesis
      using Some Cons.IH[of "acc @ roads tile cam ground"] Cons.IH[of "roads tile cam ground"]
      by (simp split: sum.splits)
  qed
qed

text \<open>The tile loops leave the flags and the road picker alone.\<close>

lemma intersectTiles_frame:
  "\<exists>b g. snd (intersectTiles ext mv ray tiles (hits, h)) = h\<lparr>m_debugGroup := g, tmpOBB := b\<rparr>"
proof (induction tiles arbitrary: hits h)
  case Nil
  have "h = h\<lparr>m_debugGroup := m_debugGroup h, tmpOBB := tmpOBB h\<rparr>" by simp
  then show ?case by (metis intersectTiles.simps(1) snd_conv)
next
  case (Cons tile tiles)
  show ?case
  proof (cases "intersectsRay ext (tileOBB mv tile) ray \<noteq> None")
    case True
    from Cons.IH[of "intersectObjects ext ray (objects tile) hits"
        "h\<lparr>tmpOBB := tileOBB mv tile,
           m_debugGroup := addDebugWorldOBBox (boundingBox tile) ''red'' (m_debugGroup h)\<rparr>"]
    show ?thesis using True by (auto simp: Let_def)
  next
    case False
    from Cons.IH[of hits "h\<lparr>tmpOBB := tileOBB mv tile\<rparr>"]
    show ?thesis using False by (auto simp: Let_def)
  qed
qed

lemma intersectDataSources_frame:
  "\<exists>b g. snd (intersectDataSources ext mv ray entries (hits, h))
           = h\<lparr>m_debugGroup := g, tmpOBB := b\<rparr>"
proof (induction entries arbitrary: hits h)
  case Nil
  have "h = h\<lparr>m_debugGroup := m_debugGroup h, tmpOBB := tmpOBB h\<rparr>" by simp
  then show ?case by (metis intersectDataSources.simps(1) snd_conv)
next
  case (Cons entry entries)
  show ?case
  proof (cases "dataSource_name entry = ''Terrain'' \<or> dataSource_name entry = ''background''")
    case True
    then show ?thesis using Cons.IH[of hits h] by simp
  next
    case False
    obtain hits1 h1 where st: "intersectTiles ext mv ray (renderedTiles entry) (hits, h) = (hits1, h1)"
      by (cases "intersectTiles ext mv ray (renderedTiles entry) (hits, h)")
    with intersectTiles_frame[of ext mv ray "renderedTiles entry" hits h]
    obtain b g where h1: "h1 = h\<lparr>m_debugGroup := g, tmpOBB := b\<rparr>" by auto
    from Cons.IH[of hits1 h1] obtain b' g' where
      "snd (intersectDataSources ext mv ray entries (hits1, h1)) = h1\<lparr>m_debugGroup := g', tmpOBB := b'\<rparr>"
      by blast
    then show ?thesis using False st h1 by auto
  qed
qed

text \<open>The raw hits do not depend on the handler.\<close>

lemma intersectTiles_hits:
  "fst (intersectTiles ext mv ray tiles (hits, h)) = fst (intersectTiles ext mv ray tiles (hits, h2))"
  by (induction tiles arbitrary: hits h h2) (auto simp: Let_def)

lemma intersectDataSources_hits:
  "fst (intersectDataSources ext mv ray entries (hits, h))
     = fst (intersectDataSources ext mv ray entries (hits, h2))"
proof (induction entries arbitrary: hits h h2)
  case Nil
  then show ?case by simp
next
  case (Cons entry entries)
  show ?case
  proof (cases "dataSource_name entry = ''Terrain'' \<or> dataSource_name entry = ''background''")
    case True
    then show ?thesis using Cons.IH[of hits h h2] by simp
  next
    case False
    obtain a1 b1 where s1: "intersectTiles ext mv ray (renderedTiles entry) (hits, h) = (a1, b1)"
      by (cases "intersectTiles ext mv ray (renderedTiles entry) (hits, h)")
    obtain a2 b2 where s2: "intersectTiles ext mv ray (renderedTiles entry) (hits, h2) = (a2, b2)"
      by (cases "intersectTiles ext mv ray (renderedTiles entry) (hits, h2)")
    have "a1 = a2"
      using intersectTiles_hits[of ext mv ray "renderedTiles entry" hits h h2] s1 s2 by simp
    then show ?thesis using False s1 s2 Cons.IH[of a1 b1 b2] by simp
  qed
qed

lemma error_unique: "(e :: error) = TypeError"
  by (cases e) simp

text \<open>
  Whether the debug overlay fails on a hit does not depend on the helpers collected so far, so
  the pick result of a hit depends on the handler through \<open>enablePickTechnique\<close> only.
\<close>

lemma addDebugIntersect_isl:
  "isl (addDebugIntersect ext mv hit dbg) = isl (addDebugIntersect ext mv hit dbg2)"
  by (auto simp: addDebugIntersect_def Let_def addDebugBSphere_def
      split: sum.splits option.splits)

lemma processIntersect_results:
  assumes "enablePickTechnique h = enablePickTechnique h2"
  shows "map_sum id fst (processIntersect ext mv h hit dbg)
           = map_sum id fst (processIntersect ext mv h2 hit dbg2)"
proof (cases "object_userData (object hit)")
  case None
  then show ?thesis by (simp add: processIntersect_def Let_def)
next
  case (Some ud)
  show ?thesis
  proof (cases "feature ud")
    case None
    with Some show ?thesis by (simp add: processIntersect_def Let_def)
  next
    case fd: (Some featureData)
    show ?thesis
    proof (cases "addDebugIntersect ext mv hit dbg")
      case (Inl e)
      with addDebugIntersect_isl[of ext mv hit dbg dbg2]
      obtain e2 where "addDebugIntersect ext mv hit dbg2 = Inl e2"
        by (cases "addDebugIntersect ext mv hit dbg2") auto
      with Inl Some fd show ?thesis
        using error_unique[of e] error_unique[of e2]
        by (simp add: processIntersect_def Let_def)
    next
      case (Inr g)
      with addDebugIntersect_isl[of ext mv hit dbg dbg2]
      obtain g2 where "addDebugIntersect ext mv hit dbg2 = Inr g2"
        by (cases "addDebugIntersect ext mv hit dbg2") auto
      with Inr Some fd assms show ?thesis
        by (simp add: processIntersect_def Let_def split: sum.splits)
    qed
  qed
qed

lemma processIntersects_results:
  assumes "enablePickTechnique h = enablePickTechnique h2"
  shows "map_sum id fst (processIntersects ext mv h hits acc dbg)
           = map_sum id fst (processIntersects ext mv h2 hits acc dbg2)"
proof (induction hits arbitrary: acc dbg dbg2)
  case Nil
  then show ?case by simp
next
  case (Cons hit hits)
  note eq = processIntersect_results[OF assms, of ext mv hit dbg dbg2]
  show ?case
  proof (cases "processIntersect ext mv h hit dbg")
    case (Inl e)
    with eq obtain e2 where "processIntersect ext mv h2 hit dbg2 = Inl e2"
      by (cases "processIntersect ext mv h2 hit dbg2") auto
    with Inl eq show ?thesis by simp
  next
    case (Inr res)
    obtain pr g where res: "res = (pr, g)" by (cases res)
    from Inr eq obtain res2 where r2: "processIntersect ext mv h2 hit dbg2 = Inr res2"
      by (cases "processIntersect ext mv h2 hit dbg2") auto
    obtain pr2 g2 where res2: "res2 = (pr2, g2)" by (cases res2)
    from eq Inr r2 res res2 have "pr2 = pr" by simp
    with Inr r2 res res2 Cons.IH[of "acc @ [pr]" g g2] show ?thesis by simp
  qed
qed

lemma rawIntersects_frame:
  "\<exists>b g. snd (rawIntersects ext mv h x y) = h\<lparr>m_debugGroup := g, tmpOBB := b\<rparr>"
proof -
  from intersectDataSources_frame
    [of ext mv "raycasterFromScreenPoint mv x y" "dataSourceTileList mv" "[]"
        "h\<lparr>m_debugGroup := []\<rparr>"]
  show ?thesis by (auto simp: rawIntersects_def)
qed

text \<open>The list a query returns, in terms of its three phases.\<close>

lemma query_results:
  "map_sum id fst (intersectMapObjects ext mv h x y) =
     (case geometryHits ext mv h x y of
        Inl e \<Rightarrow> Inl e
      | Inr gs \<Rightarrow>
          (case roadHits ext mv h x y of
             Inl e \<Rightarrow> Inl e
           | Inr rs \<Rightarrow> Inr (array_sort compareDistance (labelHits mv x y @ gs @ rs))))"
proof -
  obtain hits h1 where raw: "rawIntersects ext mv h x y = (hits, h1)"
    by (cases "rawIntersects ext mv h x y")
  with rawIntersects_frame[of ext mv h x y]
  obtain b g where h1: "h1 = h\<lparr>m_debugGroup := g, tmpOBB := b\<rparr>" by auto
  have raw': "intersectDataSources ext mv (raycasterFromScreenPoint mv x y)
                (dataSourceTileList mv) ([], h\<lparr>m_debugGroup := []\<rparr>) = (hits, h1)"
    using raw by (simp add: rawIntersects_def)
  note app = processIntersects_append[of ext mv h1 hits "labelHits mv x y" "m_debugGroup h1"]
  show ?thesis
  proof (cases "processIntersects ext mv h1 hits [] (m_debugGroup h1)")
    case (Inl e)
    with app raw raw' show ?thesis
      by (simp add: intersectMapObjects_def geometryHits_def labelHits_def Let_def)
  next
    case (Inr res)
    obtain gs dbg where res: "res = (gs, dbg)" by (cases res)
    have geo: "geometryHits ext mv h x y = Inr gs"
      using raw Inr res by (simp add: geometryHits_def)
    have merged: "processIntersects ext mv h1 hits (labelHits mv x y) (m_debugGroup h1)
                    = Inr (labelHits mv x y @ gs, dbg)"
      using app Inr res by simp
    show ?thesis
    proof (cases "enableRoadPicking h")
      case False
      with merged raw' h1 geo show ?thesis
        by (simp add: intersectMapObjects_def roadHits_def labelHits_def Let_def)
    next
      case True
      note rd = intersectRoads_append
        [of "m_roadPicker h" "camera_position (camera mv)"
            "planeIntersectPosition ext
               (setFromCamera ext (getNormalizedScreenCoordinates mv x y) (camera mv))"
            "visibleTiles mv" "labelHits mv x y @ gs"]
      from True merged raw' h1 geo rd show ?thesis
        by (auto simp: intersectMapObjects_def roadHits_def labelHits_def Let_def
            split: sum.splits)
    qed
  qed
qed

lemma geometryHits_handler:
  assumes "enablePickTechnique h = enablePickTechnique h2"
  shows "geometryHits ext mv h x y = geometryHits ext mv h2 x y"
proof -
  obtain hits h1 where r1: "rawIntersects ext mv h x y = (hits, h1)"
    by (cases "rawIntersects ext mv h x y")
  obtain hits2 h12 where r2: "rawIntersects ext mv h2 x y = (hits2, h12)"
    by (cases "rawIntersects ext mv h2 x y")
  have "hits = hits2"
    using r1 r2 intersectDataSources_hits
      [of ext mv "raycasterFromScreenPoint mv x y" "dataSourceTileList mv" "[]"
          "h\<lparr>m_debugGroup := []\<rparr>" "h2\<lparr>m_debugGroup := []\<rparr>"]
    by (simp add: rawIntersects_def)
  moreover have "enablePickTechnique h1 = enablePickTechnique h12"
    using rawIntersects_frame[of ext mv h x y] rawIntersects_frame[of ext mv h2 x y] r1 r2 assms
    by auto
  ultimately show ?thesis
    using r1 r2 processIntersects_results[of h1 h12 ext mv hits "[]"]
    by (simp add: geometryHits_def)
qed

lemma query_handler:
  assumes "enablePickTechnique h = enablePickTechnique h2"
    "enableRoadPicking h = enableRoadPicking h2" "m_roadPicker h = m_roadPicker h2"
  shows "map_sum id fst (intersectMapObjects ext mv h x y)
           = map_sum id fst (intersectMapObjects ext mv h2 x y)"
proof -
  have "roadHits ext mv h x y = roadHits ext mv h2 x y"
    using assms(2,3) by (simp add: roadHits_def)
  then show ?thesis
    using geometryHits_handler[OF assms(1), of ext mv x y]
    by (simp add: query_results split: sum.splits)
qed

lemma query_frame:
  assumes "intersectMapObjects ext mv h x y = Inr (results, h')"
  shows "\<exists>b g. h' = h\<lparr>m_debugGroup := g, tmpOBB := b\<rparr>"
proof -
  obtain hits h1 where raw: "intersectDataSources ext mv (raycasterFromScreenPoint mv x y)
                (dataSourceTileList mv) ([], h\<lparr>m_debugGroup := []\<rparr>) = (hits, h1)"
    by (cases "intersectDataSources ext mv (raycasterFromScreenPoint mv x y)
                (dataSourceTileList mv) ([], h\<lparr>m_debugGroup := []\<rparr>)")
  with intersectDataSources_frame
    [of ext mv "raycasterFromScreenPoint mv x y" "dataSourceTileList mv" "[]"
        "h\<lparr>m_debugGroup := []\<rparr>"]
  obtain b g where h1: "h1 = h\<lparr>m_debugGroup := g, tmpOBB := b\<rparr>" by auto
  from assms raw obtain g' where "h' = h1\<lparr>m_debugGroup := g'\<rparr>"
    by (auto simp: intersectMapObjects_def Let_def split: sum.splits prod.splits if_splits)
  with h1 have "h' = h\<lparr>m_debugGroup := g', tmpOBB := b\<rparr>" by simp
  then show ?thesis by blast
qed

lemmas sample_defs =
  sample_hit_def sample_object_def sample_feature_def sample_feature_volumes_def
  sample_infos_def sample_ext_def sample_box_def sample_tile_of_def sample_tile_def
  sample_mapView_def sample_handler_def sample_geometry_def sample_label_def
  sample_road_def sample_area_def

lemmas query_defs =
  intersectMapObjects_def pickTextElements_def processIntersect_def addDebugIntersect_def
  addObjInfo_def getIntersectedFeatureIndex_def addDebugGeometry_def addDebugBBox_def
  addDebugWorldBBox_def addDebugWorldOBBox_def addDebugBSphere_def addDebugRay_def
  translate_def getSize_def js_index_def tileOBB_def planeIntersectPosition_def
  array_sort_def compareDistance_def Let_def

text \<open>The sample scene, evaluated.\<close>

lemma sample_query:
  "map_sum id fst
     (intersectMapObjects sample_ext (sample_mapView [sample_tile 2 0, sample_tile 3 7])
        sample_handler 1 1)
   = Inr [sample_road 2, sample_label 5, sample_area, sample_road 5, sample_label 9]"
  by (simp add: query_defs sample_defs)

lemma sample_query_missed:
  "map_sum id fst
     (intersectMapObjects sample_ext (sample_mapView [sample_tile 3 7]) sample_handler 1 1)
   = Inr [sample_road 2, sample_label 5, sample_road 5, sample_label 9]"
  by (simp add: query_defs sample_defs)

lemma sample_labelHits:
  "labelHits (sample_mapView tiles) 1 1 = [sample_label 9, sample_label 5]"
  by (simp add: labelHits_def pickTextElements_def sample_mapView_def)

lemma sample_roadHits:
  "roadHits sample_ext (sample_mapView tiles) sample_handler 1 1
     = Inr [sample_road 5, sample_road 2]"
  by (simp add: roadHits_def sample_mapView_def sample_handler_def)

lemma sample_geometryHits:
  "geometryHits sample_ext (sample_mapView [sample_tile 2 0, sample_tile 3 7]) sample_handler 1 1
     = Inr [sample_area]"
  by (simp add: geometryHits_def rawIntersects_def query_defs sample_defs)


lemma intersectTiles_missed:
  assumes "\<forall>tile \<in> set tiles. intersectsRay ext (tileOBB mv tile) ray = None"
  shows "fst (intersectTiles ext mv ray tiles (hits, h)) = hits
       \<and> intersectTiles (ext\<lparr>intersectObjects := raycast\<rparr>) mv ray tiles (hits, h)
           = intersectTiles ext mv ray tiles (hits, h)"
  using assms by (induction tiles arbitrary: h) (auto simp: Let_def)

lemma intersectDataSources_missed:
  assumes "\<forall>entry \<in> set entries.
             dataSource_name entry \<noteq> ''Terrain'' \<and> dataSource_name entry \<noteq> ''background'' \<longrightarrow>
             (\<forall>tile \<in> set (renderedTiles entry). intersectsRay ext (tileOBB mv tile) ray = None)"
  shows "fst (intersectDataSources ext mv ray entries (hits, h)) = hits
       \<and> intersectDataSources (ext\<lparr>intersectObjects := raycast\<rparr>) mv ray entries (hits, h)
           = intersectDataSources ext mv ray entries (hits, h)"
  using assms
proof (induction entries arbitrary: h)
  case Nil
  then show ?case by simp
next
  case (Cons entry entries)
  show ?case
  proof (cases "dataSource_name entry = ''Terrain'' \<or> dataSource_name entry = ''background''")
    case True
    then show ?thesis using Cons.IH[of h] Cons.prems by simp
  next
    case False
    with Cons.prems
    have miss: "\<forall>tile \<in> set (renderedTiles entry). intersectsRay ext (tileOBB mv tile) ray = None"
      by simp
    obtain hits1 h1 where st: "intersectTiles ext mv ray (renderedTiles entry) (hits, h) = (hits1, h1)"
      by (cases "intersectTiles ext mv ray (renderedTiles entry) (hits, h)")
    from intersectTiles_missed[OF miss, of hits h raycast] st
    have "hits1 = hits"
      "intersectTiles (ext\<lparr>intersectObjects := raycast\<rparr>) mv ray (renderedTiles entry) (hits, h)
         = (hits, h1)"
      by auto
    then show ?thesis using False st Cons.IH[of h1] Cons.prems by simp
  qed
qed


text \<open>
  Claim C1. The list a query returns is ascending in \<^verbatim>\<open>distance\<close> (each element is at most
  its successor), it holds exactly the label hits, the geometry hits and the road hits, and
  among results of equal distance the order of insertion is kept: label hits first, then
  geometry hits, then road hits, each group in its own order.
\<close>

theorem C1_sorted_stable:
  assumes "intersectMapObjects ext mv h x y = Inr (results, h')"
  shows "(\<forall>i. Suc i < length results \<longrightarrow> distance (results ! i) \<le> distance (results ! Suc i))
       \<and> (\<exists>gs rs. geometryHits ext mv h x y = Inr gs \<and> roadHits ext mv h x y = Inr rs
             \<and> length results = length (labelHits mv x y) + length gs + length rs
             \<and> (\<forall>d. filter (\<lambda>r. distance r = d) results
                      = filter (\<lambda>r. distance r = d) (labelHits mv x y)
                        @ filter (\<lambda>r. distance r = d) gs
                        @ filter (\<lambda>r. distance r = d) rs))"
proof -
  from assms have "map_sum id fst (intersectMapObjects ext mv h x y) = Inr results" by simp
  then obtain gs rs where parts: "geometryHits ext mv h x y = Inr gs"
      "roadHits ext mv h x y = Inr rs"
      "results = array_sort compareDistance (labelHits mv x y @ gs @ rs)"
    by (auto simp: query_results split: sum.splits)
  have "\<forall>i. Suc i < length results \<longrightarrow> distance (results ! i) \<le> distance (results ! Suc i)"
    using parts(3) array_sort_adjacent by blast
  moreover have "length results = length (labelHits mv x y) + length gs + length rs"
    using parts(3) by (simp add: array_sort_length)
  moreover have "\<forall>d. filter (\<lambda>r. distance r = d) results
                      = filter (\<lambda>r. distance r = d) (labelHits mv x y)
                        @ filter (\<lambda>r. distance r = d) gs
                        @ filter (\<lambda>r. distance r = d) rs"
    using parts(3) by (simp add: array_sort_stable)
  ultimately show ?thesis using parts(1,2) by blast
qed


theorem C1_sorted_stable_witness:
  "map_sum id fst
     (intersectMapObjects sample_ext (sample_mapView [sample_tile 2 0, sample_tile 3 7])
        sample_handler 1 1)
     = Inr [sample_road 2, sample_label 5, sample_area, sample_road 5, sample_label 9]
   \<and> map distance [sample_road 2, sample_label 5, sample_area, sample_road 5, sample_label 9]
     = [2, 5, 5, 5, 9]
   \<and> filter (\<lambda>r. distance r = 5)
       [sample_road 2, sample_label 5, sample_area, sample_road 5, sample_label 9]
     = filter (\<lambda>r. distance r = 5) [sample_label 9, sample_label 5]
       @ filter (\<lambda>r. distance r = 5) [sample_area]
       @ filter (\<lambda>r. distance r = 5) [sample_road 5, sample_road 2]"
proof -
  let ?results = "[sample_road 2, sample_label 5, sample_area, sample_road 5, sample_label 9]"
  obtain h' where run:
    "intersectMapObjects sample_ext (sample_mapView [sample_tile 2 0, sample_tile 3 7])
       sample_handler 1 1 = Inr (?results, h')"
    using sample_query
    by (cases "intersectMapObjects sample_ext
                 (sample_mapView [sample_tile 2 0, sample_tile 3 7]) sample_handler 1 1")
       auto
  from C1_sorted_stable[OF run]
  have "filter (\<lambda>r. distance r = 5) ?results
          = filter (\<lambda>r. distance r = 5) [sample_label 9, sample_label 5]
            @ filter (\<lambda>r. distance r = 5) [sample_area]
            @ filter (\<lambda>r. distance r = 5) [sample_road 5, sample_road 2]"
    by (simp only: sample_labelHits sample_roadHits sample_geometryHits) simp
  moreover have "map distance ?results = [2, 5, 5, 5, 9]"
    by (simp add: sample_road_def sample_label_def sample_area_def)
  ultimately show ?thesis using sample_query by simp
qed

text \<open>
  Claim C6. If the pick ray misses the bounding box of every rendered tile of every data
  source other than \<^verbatim>\<open>Terrain\<close> and \<^verbatim>\<open>background\<close>, no raw hit is collected, the outcome of the
  query is the same whatever the raycast of objects would return (it is never called), there
  is no geometry result, and the returned list is the sorted list of the label and road hits.
\<close>

theorem C6_missed_tiles_no_geometry:
  assumes "\<forall>entry \<in> set (dataSourceTileList mv).
             dataSource_name entry \<noteq> ''Terrain'' \<and> dataSource_name entry \<noteq> ''background'' \<longrightarrow>
             (\<forall>tile \<in> set (renderedTiles entry).
                intersectsRay ext (tileOBB mv tile) (raycasterFromScreenPoint mv x y) = None)"
  shows "fst (rawIntersects ext mv h x y) = []
       \<and> (\<forall>raycast. intersectMapObjects (ext\<lparr>intersectObjects := raycast\<rparr>) mv h x y
                      = intersectMapObjects ext mv h x y)
       \<and> geometryHits ext mv h x y = Inr []
       \<and> (\<forall>results h'. intersectMapObjects ext mv h x y = Inr (results, h') \<longrightarrow>
            (\<exists>rs. roadHits ext mv h x y = Inr rs
                  \<and> results = array_sort compareDistance (labelHits mv x y @ rs)))"
proof -
  note miss = intersectDataSources_missed[OF assms, of "[]" "h\<lparr>m_debugGroup := []\<rparr>"]
  have raw: "fst (rawIntersects ext mv h x y) = []"
    using miss by (simp add: rawIntersects_def)
  have geo: "geometryHits ext mv h x y = Inr []"
    using raw by (cases "rawIntersects ext mv h x y") (simp add: geometryHits_def)
  have same: "intersectMapObjects (ext\<lparr>intersectObjects := raycast\<rparr>) mv h x y
                = intersectMapObjects ext mv h x y" for raycast
  proof -
    obtain hits h1 where st:
      "intersectDataSources ext mv (raycasterFromScreenPoint mv x y) (dataSourceTileList mv)
         ([], h\<lparr>m_debugGroup := []\<rparr>) = (hits, h1)"
      by (cases "intersectDataSources ext mv (raycasterFromScreenPoint mv x y)
                   (dataSourceTileList mv) ([], h\<lparr>m_debugGroup := []\<rparr>)")
    with miss[of raycast] have "hits = []"
      "intersectDataSources (ext\<lparr>intersectObjects := raycast\<rparr>) mv
         (raycasterFromScreenPoint mv x y) (dataSourceTileList mv)
         ([], h\<lparr>m_debugGroup := []\<rparr>) = ([], h1)"
      by auto
    with st show ?thesis
      by (simp add: intersectMapObjects_def planeIntersectPosition_def Let_def
          split: sum.splits list.splits)
  qed
  have res: "\<exists>rs. roadHits ext mv h x y = Inr rs
                  \<and> results = array_sort compareDistance (labelHits mv x y @ rs)"
    if "intersectMapObjects ext mv h x y = Inr (results, h')" for results h'
  proof -
    from that have "map_sum id fst (intersectMapObjects ext mv h x y) = Inr results" by simp
    then show ?thesis using geo by (auto simp: query_results split: sum.splits)
  qed
  from raw same geo res show ?thesis by blast
qed


theorem C6_missed_tiles_no_geometry_witness:
  "intersectsRay sample_ext (tileOBB (sample_mapView [sample_tile 3 7]) (sample_tile 3 7))
     (raycasterFromScreenPoint (sample_mapView [sample_tile 3 7]) 1 1) = None
   \<and> intersectsRay sample_ext (tileOBB (sample_mapView [sample_tile 3 7]) (sample_tile 1 0))
     (raycasterFromScreenPoint (sample_mapView [sample_tile 3 7]) 1 1) = Some 1
   \<and> fst (rawIntersects sample_ext (sample_mapView [sample_tile 3 7]) sample_handler 1 1) = []
   \<and> geometryHits sample_ext (sample_mapView [sample_tile 3 7]) sample_handler 1 1 = Inr []
   \<and> map_sum id fst
       (intersectMapObjects sample_ext (sample_mapView [sample_tile 3 7]) sample_handler 1 1)
     = Inr (array_sort compareDistance
              ([sample_label 9, sample_label 5] @ [sample_road 5, sample_road 2]))
   \<and> array_sort compareDistance
       ([sample_label 9, sample_label 5] @ [sample_road 5, sample_road 2])
     = [sample_road 2, sample_label 5, sample_road 5, sample_label 9]"
proof -
  let ?mv = "sample_mapView [sample_tile 3 7]"
  have miss: "\<forall>entry \<in> set (dataSourceTileList ?mv).
             dataSource_name entry \<noteq> ''Terrain'' \<and> dataSource_name entry \<noteq> ''background'' \<longrightarrow>
             (\<forall>tile \<in> set (renderedTiles entry).
                intersectsRay sample_ext (tileOBB ?mv tile) (raycasterFromScreenPoint ?mv 1 1)
                  = None)"
    by (simp add: sample_defs tileOBB_def)
  note c6 = C6_missed_tiles_no_geometry[OF miss, of sample_handler]
  obtain results h' where run:
    "intersectMapObjects sample_ext ?mv sample_handler 1 1 = Inr (results, h')"
    using sample_query_missed
    by (cases "intersectMapObjects sample_ext ?mv sample_handler 1 1") auto
  with c6 have "results = array_sort compareDistance
                            ([sample_label 9, sample_label 5] @ [sample_road 5, sample_road 2])"
    by (auto simp: sample_labelHits sample_roadHits)
  with run have "map_sum id fst (intersectMapObjects sample_ext ?mv sample_handler 1 1)
     = Inr (array_sort compareDistance
              ([sample_label 9, sample_label 5] @ [sample_road 5, sample_road 2]))"
    by simp
  moreover have "array_sort compareDistance
       ([sample_label 9, sample_label 5] @ [sample_road 5, sample_road 2])
     = [sample_road 2, sample_label 5, sample_road 5, sample_label 9]"
    by (simp add: array_sort_def compareDistance_def sample_label_def sample_road_def)
  moreover have "intersectsRay sample_ext (tileOBB ?mv (sample_tile 3 7))
     (raycasterFromScreenPoint ?mv 1 1) = None"
    "intersectsRay sample_ext (tileOBB ?mv (sample_tile 1 0))
     (raycasterFromScreenPoint ?mv 1 1) = Some 1"
    by (simp_all add: sample_defs tileOBB_def)
  ultimately show ?thesis using c6 by simp
qed


text \<open>
  Claim C9. The list a query returns (or its failure) does not depend on the state a query
  writes, the debug group and the scratch box; so a second query on the same map view at the
  same screen position, run on the handler as the first one left it, returns the same list.
\<close>

theorem C9_deterministic:
  "(\<forall>g b. map_sum id fst
            (intersectMapObjects ext mv (h\<lparr>m_debugGroup := g, tmpOBB := b\<rparr>) x y)
          = map_sum id fst (intersectMapObjects ext mv h x y))
   \<and> (\<forall>results h'. intersectMapObjects ext mv h x y = Inr (results, h') \<longrightarrow>
         (\<exists>h''. intersectMapObjects ext mv h' x y = Inr (results, h'')))"
proof -
  have state: "map_sum id fst
                 (intersectMapObjects ext mv (h\<lparr>m_debugGroup := g, tmpOBB := b\<rparr>) x y)
               = map_sum id fst (intersectMapObjects ext mv h x y)" for g b
    by (rule query_handler) simp_all
  have again: "\<exists>h''. intersectMapObjects ext mv h' x y = Inr (results, h'')"
    if run: "intersectMapObjects ext mv h x y = Inr (results, h')" for results h'
  proof -
    from query_frame[OF run] obtain b g where "h' = h\<lparr>m_debugGroup := g, tmpOBB := b\<rparr>"
      by blast
    with state[where g = g and b = b] run
    have "map_sum id fst (intersectMapObjects ext mv h' x y) = Inr results" by simp
    then show ?thesis by (cases "intersectMapObjects ext mv h' x y") auto
  qed
  from state again show ?thesis by blast
qed


theorem C9_deterministic_witness:
  "(case intersectMapObjects sample_ext (sample_mapView [sample_tile 2 0, sample_tile 3 7])
           sample_handler 1 1 of
      Inl e \<Rightarrow> False
    | Inr (results, h') \<Rightarrow>
        results = [sample_road 2, sample_label 5, sample_area, sample_road 5, sample_label 9]
        \<and> m_debugGroup h' \<noteq> m_debugGroup sample_handler
        \<and> map_sum id fst
            (intersectMapObjects sample_ext (sample_mapView [sample_tile 2 0, sample_tile 3 7])
               h' 1 1) = Inr results)"
proof -
  let ?mv = "sample_mapView [sample_tile 2 0, sample_tile 3 7]"
  obtain results h' where run:
    "intersectMapObjects sample_ext ?mv sample_handler 1 1 = Inr (results, h')"
    using sample_query
    by (cases "intersectMapObjects sample_ext ?mv sample_handler 1 1") auto
  with C9_deterministic[of sample_ext ?mv sample_handler 1 1]
  obtain h'' where "intersectMapObjects sample_ext ?mv h' 1 1 = Inr (results, h'')"
    by blast
  moreover have "results
      = [sample_road 2, sample_label 5, sample_area, sample_road 5, sample_label 9]"
    using run sample_query by simp
  moreover have "m_debugGroup h' \<noteq> m_debugGroup sample_handler"
  proof -
    have "map_sum id (m_debugGroup \<circ> snd) (intersectMapObjects sample_ext ?mv sample_handler 1 1)
            = Inr (m_debugGroup h')"
      using run by simp
    then show ?thesis by (auto simp add: query_defs sample_defs)
  qed
  ultimately show ?thesis using run by simp
qed

end
